theory Spec2Isabelle
  imports
    Main
    "HOL-Library.Word"
    "HOL-Library.Finite_Map"
    "HOL-Library.Char_ord"
    "HOL-Library.List_Lexorder"
begin

section \<open>Data model\<close>

text \<open>
  Values shared by the packages \<^verbatim>\<open>models\<close>, \<^verbatim>\<open>cache\<close>, \<^verbatim>\<open>repository\<close>, \<^verbatim>\<open>telemetry\<close>
  and \<^verbatim>\<open>service\<close>.

  \<^item> \<^verbatim>\<open>uuid.UUID\<close> is \<^verbatim>\<open>[16]byte\<close>: a 128-bit word.
  \<^item> \<^verbatim>\<open>time.Time\<close> is an instant counted in nanoseconds and \<^verbatim>\<open>time.Duration\<close> a signed
    number of nanoseconds; \<^verbatim>\<open>t.Add(d)\<close> is \<open>t + d\<close> and \<^verbatim>\<open>t.After(u)\<close> is \<open>u < t\<close>.
    The instant that \<^verbatim>\<open>time.Now()\<close> yields inside a call is an argument of the
    function that models the call. \<^verbatim>\<open>time.Sleep\<close> only delays that reading and is
    not modelled apart from it.
  \<^item> \<^verbatim>\<open>*models.Subscriber\<close> is a reference into a heap of subscriber objects, because
    the repository, the cache and the service share and mutate the same object. A
    reference is the address of an object and is not \<^verbatim>\<open>nil\<close>; a pointer that may be
    \<^verbatim>\<open>nil\<close> is a \<open>ref option\<close> with \<open>None\<close> for \<^verbatim>\<open>nil\<close>, and dereferencing it is a
    panic, a value of its own in the result. \<^verbatim>\<open>Cache.Set\<close> takes such a pointer; the
    methods of the repository and of the service are handed addresses, as by every
    caller in the repository.
  \<^item> The cache, the repository and the recorder run every method body under their own
    lock, so a method call is one atomic step and a run is a sequence of such steps.
  \<^item> A Go \<^verbatim>\<open>error\<close> is its message; the result \<^verbatim>\<open>(v, err)\<close> of a call is a sum with
    \<open>Inl\<close> for the error, and a result \<^verbatim>\<open>error\<close> alone is an \<open>error option\<close> with
    \<open>None\<close> for \<^verbatim>\<open>nil\<close>.
\<close>

type_synonym UUID = "128 word"
type_synonym Time = int
type_synonym Duration = int
type_synonym ref = nat

datatype error = Error string

datatype panic = NilPointerDereference

fun Error_msg :: "error \<Rightarrow> string" where
  "Error_msg (Error m) = m"

definition Minute :: Duration where
  "Minute = 60000000000"

record Subscriber =
  ID :: UUID
  Email :: string
  Name :: string
  CreatedAt :: Time
  UpdatedAt :: Time

record CreateSubscriberRequest =
  req_Email :: string
  req_Name :: string

text \<open>
  Functions of libraries outside the repository that the code calls and whose results
  end up in keys, span attributes and error values: \<^verbatim>\<open>uuid.UUID.String\<close>,
  \<^verbatim>\<open>uuid.Parse\<close> and \<^verbatim>\<open>time.Duration.String\<close>. They are parameters of the model.
\<close>

record golib =
  uuid_String :: "UUID \<Rightarrow> string"
  uuid_Parse :: "string \<Rightarrow> error + UUID"
  Duration_String :: "Duration \<Rightarrow> string"

subsection \<open>Spans\<close>

text \<open>
  An attribute value is a string, a boolean or an integer. \<^verbatim>\<open>Value.AsString\<close> of the
  tracing library yields the string of a string-typed value and the empty string for
  every other type.
\<close>

datatype Value = StringValue string | BoolValue bool | IntValue int

fun AsString :: "Value \<Rightarrow> string" where
  "AsString (StringValue s) = s"
| "AsString (BoolValue b) = []"
| "AsString (IntValue i) = []"

text \<open>
  A finished span: its name, its attributes in the order they were set (no operation of
  the repository sets one key twice on a span) and the errors recorded on it. The
  timestamps of a span are read nowhere in the repository and are left out.
\<close>

record Span =
  name :: string
  attributes :: "(string \<times> Value) list"
  errors :: "error list"

definition Start :: "string \<Rightarrow> (string \<times> Value) list \<Rightarrow> Span" where
  "Start n attrs = \<lparr>name = n, attributes = attrs, errors = []\<rparr>"

definition SetAttributes :: "Span \<Rightarrow> (string \<times> Value) list \<Rightarrow> Span" where
  "SetAttributes sp attrs = sp\<lparr>attributes := attributes sp @ attrs\<rparr>"

definition RecordError :: "Span \<Rightarrow> error \<Rightarrow> Span" where
  "RecordError sp e = sp\<lparr>errors := errors sp @ [e]\<rparr>"

section \<open>The TTL cache (package cache)\<close>

record cacheItem =
  subscriber :: ref
  expireAt :: Time

record InMemoryCache =
  items :: "(string, cacheItem) fmap"

definition NewInMemoryCache :: InMemoryCache where
  "NewInMemoryCache = \<lparr>items = fmempty\<rparr>"

text \<open>
  Every method returns its Go result, the cache after the call and the spans that ended
  during the call. The first argument after the library is the heap, read where the
  method dereferences a subscriber.
\<close>

definition InMemoryCache_Get ::
  "golib \<Rightarrow> (ref \<Rightarrow> Subscriber) \<Rightarrow> InMemoryCache \<Rightarrow> Time \<Rightarrow> string
    \<Rightarrow> (error + ref) \<times> InMemoryCache \<times> Span list" where
  "InMemoryCache_Get L h c now key =
    (let span = Start ''cache.get''
           [(''cache.key'', StringValue key), (''operation'', StringValue ''cache.read'')]
     in case fmlookup (items c) key of
          None \<Rightarrow>
            (Inl (Error ''key not found in cache''), c,
             [SetAttributes span
                [(''cache.hit'', BoolValue False), (''cache.result'', StringValue ''miss'')]])
        | Some item \<Rightarrow>
            if expireAt item < now
            then (Inl (Error ''key expired in cache''), c,
                  [SetAttributes span
                     [(''cache.hit'', BoolValue False),
                      (''cache.result'', StringValue ''expired'')]])
            else (Inr (subscriber item), c,
                  [SetAttributes span
                     [(''cache.hit'', BoolValue True),
                      (''cache.result'', StringValue ''hit''),
                      (''subscriber.id'',
                         StringValue (uuid_String L (ID (h (subscriber item)))))]]))"

text \<open>
  \<^verbatim>\<open>Set\<close> evaluates the attributes of its span, among them \<^verbatim>\<open>subscriber.ID.String()\<close>,
  before it starts the span. With a nil subscriber that dereference panics: no span is
  started, the lock is not taken and the map is not written.
\<close>

definition InMemoryCache_Set ::
  "golib \<Rightarrow> (ref \<Rightarrow> Subscriber) \<Rightarrow> InMemoryCache \<Rightarrow> Time \<Rightarrow> string \<Rightarrow> ref option
    \<Rightarrow> Duration \<Rightarrow> (panic + error option) \<times> InMemoryCache \<times> Span list" where
  "InMemoryCache_Set L h c now key subscriber_ptr ttl =
    (case subscriber_ptr of
       None \<Rightarrow> (Inl NilPointerDereference, c, [])
     | Some sub \<Rightarrow>
         (let span = Start ''cache.set''
                [(''cache.key'', StringValue key),
                 (''subscriber.id'', StringValue (uuid_String L (ID (h sub)))),
                 (''operation'', StringValue ''cache.write''),
                 (''ttl'', StringValue (Duration_String L ttl))];
              c' = c\<lparr>items := fmupd key \<lparr>subscriber = sub, expireAt = now + ttl\<rparr> (items c)\<rparr>
          in (Inr None, c', [SetAttributes span [(''success'', BoolValue True)]])))"

definition InMemoryCache_Delete ::
  "InMemoryCache \<Rightarrow> string \<Rightarrow> error option \<times> InMemoryCache \<times> Span list" where
  "InMemoryCache_Delete c key =
    (let span = Start ''cache.delete''
           [(''cache.key'', StringValue key), (''operation'', StringValue ''cache.write'')];
         exists = (fmlookup (items c) key \<noteq> None);
         c' = c\<lparr>items := fmdrop key (items c)\<rparr>
     in (None, c',
         [SetAttributes span
            [(''key.existed'', BoolValue exists), (''success'', BoolValue True)]]))"

definition InMemoryCache_Clear ::
  "InMemoryCache \<Rightarrow> error option \<times> InMemoryCache \<times> Span list" where
  "InMemoryCache_Clear c =
    (let span = Start ''cache.clear'' [(''operation'', StringValue ''cache.write'')];
         itemCount = int (fcard (fmdom (items c)));
         c' = c\<lparr>items := fmempty\<rparr>
     in (None, c',
         [SetAttributes span
            [(''items.cleared'', IntValue itemCount), (''success'', BoolValue True)]]))"

text \<open>
  The reaper. One tick of \<^verbatim>\<open>cleanup\<close> ranges over the keys of the map and deletes the
  entries whose expiry lies before the instant read at that tick. Go leaves the order of
  the range unspecified; the model visits the keys in ascending order. The goroutine
  never returns: \<open>InMemoryCache_cleanup\<close> runs it over the instants of finitely many ticks.
\<close>

fun cleanup_range :: "Time \<Rightarrow> string list \<Rightarrow> (string, cacheItem) fmap
    \<Rightarrow> (string, cacheItem) fmap" where
  "cleanup_range now [] m = m"
| "cleanup_range now (key # keys) m =
    (case fmlookup m key of
       None \<Rightarrow> cleanup_range now keys m
     | Some item \<Rightarrow>
         cleanup_range now keys (if expireAt item < now then fmdrop key m else m))"

definition cleanup_tick :: "InMemoryCache \<Rightarrow> Time \<Rightarrow> InMemoryCache" where
  "cleanup_tick c now =
     c\<lparr>items := cleanup_range now (sorted_list_of_fset (fmdom (items c))) (items c)\<rparr>"

fun InMemoryCache_cleanup :: "InMemoryCache \<Rightarrow> Time list \<Rightarrow> InMemoryCache" where
  "InMemoryCache_cleanup c [] = c"
| "InMemoryCache_cleanup c (now # ticks) = InMemoryCache_cleanup (cleanup_tick c now) ticks"

definition GenerateCacheKey :: "golib \<Rightarrow> UUID \<Rightarrow> string" where
  "GenerateCacheKey L uid = ''subscriber:'' @ uuid_String L uid"

section \<open>The in-memory origin store (package repository)\<close>

record InMemorySubscriberRepository =
  subscribers :: "(UUID, ref) fmap"

definition NewInMemorySubscriberRepository :: InMemorySubscriberRepository where
  "NewInMemorySubscriberRepository = \<lparr>subscribers = fmempty\<rparr>"

definition InMemorySubscriberRepository_Create ::
  "golib \<Rightarrow> (ref \<Rightarrow> Subscriber) \<Rightarrow> InMemorySubscriberRepository \<Rightarrow> ref
    \<Rightarrow> error option \<times> InMemorySubscriberRepository \<times> Span list" where
  "InMemorySubscriberRepository_Create L h r sub =
    (let span = Start ''subscriber.repository.create''
           [(''subscriber.id'', StringValue (uuid_String L (ID (h sub)))),
            (''subscriber.email'', StringValue (Email (h sub))),
            (''operation'', StringValue ''database.write'')]
     in if fmlookup (subscribers r) (ID (h sub)) \<noteq> None
        then (Some (Error (''subscriber with ID '' @ uuid_String L (ID (h sub))
                            @ '' already exists'')),
              r, [RecordError span (Error ''subscriber already exists'')])
        else (None, r\<lparr>subscribers := fmupd (ID (h sub)) sub (subscribers r)\<rparr>,
              [SetAttributes span [(''success'', BoolValue True)]]))"

text \<open>A malformed identifier is rejected before any span is started.\<close>

definition InMemorySubscriberRepository_GetByID ::
  "golib \<Rightarrow> InMemorySubscriberRepository \<Rightarrow> string
    \<Rightarrow> (error + ref) \<times> InMemorySubscriberRepository \<times> Span list" where
  "InMemorySubscriberRepository_GetByID L r uid =
    (case uuid_Parse L uid of
       Inl err \<Rightarrow> (Inl (Error (''invalid UUID format: '' @ Error_msg err)), r, [])
     | Inr parsedID \<Rightarrow>
         (let span = Start ''subscriber.repository.get_by_id''
                [(''subscriber.id'', StringValue uid),
                 (''operation'', StringValue ''database.read'')]
          in case fmlookup (subscribers r) parsedID of
               None \<Rightarrow>
                 (Inl (Error (''subscriber with ID '' @ uid @ '' not found'')), r,
                  [RecordError span (Error ''subscriber not found'')])
             | Some sub \<Rightarrow>
                 (Inr sub, r, [SetAttributes span [(''success'', BoolValue True)]])))"

text \<open>
  \<^verbatim>\<open>GetAll\<close> collects the values of the map in the order of a Go range, which is
  unspecified; the model lists them by ascending key.
\<close>

definition InMemorySubscriberRepository_GetAll ::
  "InMemorySubscriberRepository
    \<Rightarrow> (error + ref list) \<times> InMemorySubscriberRepository \<times> Span list" where
  "InMemorySubscriberRepository_GetAll r =
    (let span = Start ''subscriber.repository.get_all''
           [(''operation'', StringValue ''database.read'')];
         subs = List.map_filter (fmlookup (subscribers r))
                  (sorted_list_of_fset (fmdom (subscribers r)))
     in (Inr subs, r,
         [SetAttributes span
            [(''subscriber.count'', IntValue (int (length subs))),
             (''success'', BoolValue True)]]))"

text \<open>\<^verbatim>\<open>Update\<close> writes \<^verbatim>\<open>UpdatedAt\<close> through the pointer, so it also returns the heap.\<close>

definition InMemorySubscriberRepository_Update ::
  "golib \<Rightarrow> (ref \<Rightarrow> Subscriber) \<Rightarrow> InMemorySubscriberRepository \<Rightarrow> Time \<Rightarrow> ref
    \<Rightarrow> error option \<times> (ref \<Rightarrow> Subscriber) \<times> InMemorySubscriberRepository \<times> Span list" where
  "InMemorySubscriberRepository_Update L h r now sub =
    (let span = Start ''subscriber.repository.update''
           [(''subscriber.id'', StringValue (uuid_String L (ID (h sub)))),
            (''operation'', StringValue ''database.write'')]
     in if fmlookup (subscribers r) (ID (h sub)) = None
        then (Some (Error (''subscriber with ID '' @ uuid_String L (ID (h sub))
                            @ '' not found'')),
              h, r, [RecordError span (Error ''subscriber not found'')])
        else (let h' = h(sub := (h sub)\<lparr>UpdatedAt := now\<rparr>)
              in (None, h', r\<lparr>subscribers := fmupd (ID (h' sub)) sub (subscribers r)\<rparr>,
                  [SetAttributes span [(''success'', BoolValue True)]])))"

definition InMemorySubscriberRepository_Delete ::
  "golib \<Rightarrow> InMemorySubscriberRepository \<Rightarrow> string
    \<Rightarrow> error option \<times> InMemorySubscriberRepository \<times> Span list" where
  "InMemorySubscriberRepository_Delete L r uid =
    (case uuid_Parse L uid of
       Inl err \<Rightarrow> (Some (Error (''invalid UUID format: '' @ Error_msg err)), r, [])
     | Inr parsedID \<Rightarrow>
         (let span = Start ''subscriber.repository.delete''
                [(''subscriber.id'', StringValue uid),
                 (''operation'', StringValue ''database.write'')]
          in if fmlookup (subscribers r) parsedID = None
             then (Some (Error (''subscriber with ID '' @ uid @ '' not found'')), r,
                   [RecordError span (Error ''subscriber not found'')])
             else (None, r\<lparr>subscribers := fmdrop parsedID (subscribers r)\<rparr>,
                   [SetAttributes span [(''success'', BoolValue True)]])))"

section \<open>The span recorder (package telemetry)\<close>

record TestSpanRecorder =
  spans :: "Span list"

definition NewTestSpanRecorder :: TestSpanRecorder where
  "NewTestSpanRecorder = \<lparr>spans = []\<rparr>"

definition TestSpanRecorder_ExportSpans ::
  "TestSpanRecorder \<Rightarrow> Span list \<Rightarrow> error option \<times> TestSpanRecorder" where
  "TestSpanRecorder_ExportSpans t new = (None, t\<lparr>spans := spans t @ new\<rparr>)"

definition TestSpanRecorder_GetSpans :: "TestSpanRecorder \<Rightarrow> Span list" where
  "TestSpanRecorder_GetSpans t = spans t"

fun GetSpansByName_loop :: "Span list \<Rightarrow> string \<Rightarrow> Span list \<Rightarrow> Span list" where
  "GetSpansByName_loop [] n result = result"
| "GetSpansByName_loop (span # rest) n result =
     GetSpansByName_loop rest n (if name span = n then result @ [span] else result)"

definition TestSpanRecorder_GetSpansByName :: "TestSpanRecorder \<Rightarrow> string \<Rightarrow> Span list" where
  "TestSpanRecorder_GetSpansByName t n = GetSpansByName_loop (spans t) n []"

text \<open>
  The inner loop of \<^verbatim>\<open>GetSpansByOperation\<close>: it stops at the first attribute whose key
  is \<^verbatim>\<open>operation\<close> and whose value, read with \<^verbatim>\<open>AsString\<close>, is the operation asked for.
\<close>

fun operation_attr_loop :: "(string \<times> Value) list \<Rightarrow> string \<Rightarrow> bool" where
  "operation_attr_loop [] operation = False"
| "operation_attr_loop (attr # rest) operation =
     (if fst attr = ''operation'' \<and> AsString (snd attr) = operation then True
      else operation_attr_loop rest operation)"

fun GetSpansByOperation_loop :: "Span list \<Rightarrow> string \<Rightarrow> Span list \<Rightarrow> Span list" where
  "GetSpansByOperation_loop [] operation result = result"
| "GetSpansByOperation_loop (span # rest) operation result =
     GetSpansByOperation_loop rest operation
       (if operation_attr_loop (attributes span) operation then result @ [span] else result)"

definition TestSpanRecorder_GetSpansByOperation ::
  "TestSpanRecorder \<Rightarrow> string \<Rightarrow> Span list" where
  "TestSpanRecorder_GetSpansByOperation t operation =
     GetSpansByOperation_loop (spans t) operation []"

definition TestSpanRecorder_Clear :: "TestSpanRecorder \<Rightarrow> TestSpanRecorder" where
  "TestSpanRecorder_Clear t = t\<lparr>spans := []\<rparr>"

definition TestSpanRecorder_Count :: "TestSpanRecorder \<Rightarrow> int" where
  "TestSpanRecorder_Count t = int (length (spans t))"

text \<open>Recording a sequence of batches, one \<^verbatim>\<open>ExportSpans\<close> call for each.\<close>

fun record_batches :: "TestSpanRecorder \<Rightarrow> Span list list \<Rightarrow> TestSpanRecorder" where
  "record_batches t [] = t"
| "record_batches t (batch # rest) =
     record_batches (snd (TestSpanRecorder_ExportSpans t batch)) rest"

section \<open>The world of a running application\<close>

text \<open>
  What the service and the components behind its interfaces act on: the heap of
  subscriber objects with its allocation pointer, the state behind the repository, the
  state behind the cache, the exporter that receives every span when it ends (the test
  harness registers a \<^verbatim>\<open>TestSpanRecorder\<close> as a synchronous exporter), and the entries
  written by the logger. The logger's level is \<^verbatim>\<open>InfoLevel\<close>, so every entry of level
  info, warning or error is written; the trace and span identifiers that
  \<^verbatim>\<open>WithTracing\<close> adds to an entry are left out.
\<close>

datatype Level = InfoLevel | WarnLevel | ErrorLevel

record LogEntry =
  level :: Level
  message :: string
  log_error :: "error option"
  log_fields :: "(string \<times> Value) list"

record ('r, 'c) world =
  heap :: "ref \<Rightarrow> Subscriber"
  next_ref :: ref
  repo_state :: 'r
  cache_state :: 'c
  recorder :: TestSpanRecorder
  logged :: "LogEntry list"

definition End :: "Span \<Rightarrow> ('r, 'c) world \<Rightarrow> ('r, 'c) world" where
  "End sp w = w\<lparr>recorder := snd (TestSpanRecorder_ExportSpans (recorder w) [sp])\<rparr>"

fun Ended :: "Span list \<Rightarrow> ('r, 'c) world \<Rightarrow> ('r, 'c) world" where
  "Ended [] w = w"
| "Ended (sp # sps) w = Ended sps (End sp w)"

definition InfoWithTracing ::
  "string \<Rightarrow> (string \<times> Value) list \<Rightarrow> ('r, 'c) world \<Rightarrow> ('r, 'c) world" where
  "InfoWithTracing msg fs w =
     w\<lparr>logged := logged w @
         [\<lparr>level = InfoLevel, message = msg, log_error = None, log_fields = fs\<rparr>]\<rparr>"

definition WarnWithTracing ::
  "string \<Rightarrow> (string \<times> Value) list \<Rightarrow> ('r, 'c) world \<Rightarrow> ('r, 'c) world" where
  "WarnWithTracing msg fs w =
     w\<lparr>logged := logged w @
         [\<lparr>level = WarnLevel, message = msg, log_error = None, log_fields = fs\<rparr>]\<rparr>"

definition ErrorWithTracing ::
  "string \<Rightarrow> error \<Rightarrow> (string \<times> Value) list \<Rightarrow> ('r, 'c) world \<Rightarrow> ('r, 'c) world" where
  "ErrorWithTracing msg err fs w =
     w\<lparr>logged := logged w @
         [\<lparr>level = ErrorLevel, message = msg, log_error = Some err, log_fields = fs\<rparr>]\<rparr>"

text \<open>
  \<^verbatim>\<open>models.NewSubscriber\<close> allocates a subscriber; the identifier drawn by
  \<^verbatim>\<open>uuid.New()\<close> and the instant read by \<^verbatim>\<open>time.Now()\<close> are its first two arguments.
\<close>

definition NewSubscriber ::
  "UUID \<Rightarrow> Time \<Rightarrow> string \<Rightarrow> string \<Rightarrow> ('r, 'c) world \<Rightarrow> ref \<times> ('r, 'c) world" where
  "NewSubscriber new_id now email nm w =
    (let p = next_ref w
     in (p, w\<lparr>heap := (heap w)(p := \<lparr>ID = new_id, Email = email, Name = nm,
                                      CreatedAt = now, UpdatedAt = now\<rparr>),
              next_ref := Suc p\<rparr>))"

subsection \<open>The interfaces the service is built on\<close>

text \<open>
  A method of \<^verbatim>\<open>repository.SubscriberRepository\<close> or \<^verbatim>\<open>cache.Cache\<close> is a function
  from the world before the call to its result and the world after it. The methods whose
  in-memory implementation reads the clock take that reading as their first argument.
  A result \<^verbatim>\<open>(*models.Subscriber, error)\<close> follows the Go convention that exactly one
  of the two is \<^verbatim>\<open>nil\<close>.
\<close>

record 'w SubscriberRepository =
  Repo_Create :: "ref \<Rightarrow> 'w \<Rightarrow> error option \<times> 'w"
  Repo_GetByID :: "string \<Rightarrow> 'w \<Rightarrow> (error + ref) \<times> 'w"
  Repo_GetAll :: "'w \<Rightarrow> (error + ref list) \<times> 'w"
  Repo_Update :: "Time \<Rightarrow> ref \<Rightarrow> 'w \<Rightarrow> error option \<times> 'w"
  Repo_Delete :: "string \<Rightarrow> 'w \<Rightarrow> error option \<times> 'w"

record 'w Cache =
  Cache_Get :: "Time \<Rightarrow> string \<Rightarrow> 'w \<Rightarrow> (error + ref) \<times> 'w"
  Cache_Set :: "Time \<Rightarrow> string \<Rightarrow> ref \<Rightarrow> Duration \<Rightarrow> 'w \<Rightarrow> error option \<times> 'w"
  Cache_Delete :: "string \<Rightarrow> 'w \<Rightarrow> error option \<times> 'w"
  Cache_Clear :: "'w \<Rightarrow> error option \<times> 'w"

record 'w SubscriberService =
  repo :: "'w SubscriberRepository"
  cache :: "'w Cache"

definition InMemorySubscriberRepository_impl ::
  "golib \<Rightarrow> (InMemorySubscriberRepository, 'c) world SubscriberRepository" where
  "InMemorySubscriberRepository_impl L =
    \<lparr>Repo_Create = (\<lambda>sub w.
        case InMemorySubscriberRepository_Create L (heap w) (repo_state w) sub of
          (err, r', sps) \<Rightarrow> (err, Ended sps (w\<lparr>repo_state := r'\<rparr>))),
     Repo_GetByID = (\<lambda>uid w.
        case InMemorySubscriberRepository_GetByID L (repo_state w) uid of
          (res, r', sps) \<Rightarrow> (res, Ended sps (w\<lparr>repo_state := r'\<rparr>))),
     Repo_GetAll = (\<lambda>w.
        case InMemorySubscriberRepository_GetAll (repo_state w) of
          (res, r', sps) \<Rightarrow> (res, Ended sps (w\<lparr>repo_state := r'\<rparr>))),
     Repo_Update = (\<lambda>now sub w.
        case InMemorySubscriberRepository_Update L (heap w) (repo_state w) now sub of
          (err, h', r', sps) \<Rightarrow> (err, Ended sps (w\<lparr>heap := h', repo_state := r'\<rparr>))),
     Repo_Delete = (\<lambda>uid w.
        case InMemorySubscriberRepository_Delete L (repo_state w) uid of
          (err, r', sps) \<Rightarrow> (err, Ended sps (w\<lparr>repo_state := r'\<rparr>)))\<rparr>"

text \<open>
  The interface hands \<^verbatim>\<open>Set\<close> the address of a subscriber, so behind the interface the
  call returns; \<open>returned_error\<close> reads the error it returned. The equation for a panic
  is never used there.
\<close>

fun returned_error :: "panic + error option \<Rightarrow> error option" where
  "returned_error (Inr err) = err"
| "returned_error (Inl p) = None"

definition InMemoryCache_impl :: "golib \<Rightarrow> ('r, InMemoryCache) world Cache" where
  "InMemoryCache_impl L =
    \<lparr>Cache_Get = (\<lambda>now key w.
        case InMemoryCache_Get L (heap w) (cache_state w) now key of
          (res, c', sps) \<Rightarrow> (res, Ended sps (w\<lparr>cache_state := c'\<rparr>))),
     Cache_Set = (\<lambda>now key sub ttl w.
        case InMemoryCache_Set L (heap w) (cache_state w) now key (Some sub) ttl of
          (res, c', sps) \<Rightarrow> (returned_error res, Ended sps (w\<lparr>cache_state := c'\<rparr>))),
     Cache_Delete = (\<lambda>key w.
        case InMemoryCache_Delete (cache_state w) key of
          (err, c', sps) \<Rightarrow> (err, Ended sps (w\<lparr>cache_state := c'\<rparr>))),
     Cache_Clear = (\<lambda>w.
        case InMemoryCache_Clear (cache_state w) of
          (err, c', sps) \<Rightarrow> (err, Ended sps (w\<lparr>cache_state := c'\<rparr>)))\<rparr>"

text \<open>The service as \<^verbatim>\<open>app.Build\<close> and the test harness wire it.\<close>

definition NewSubscriberService ::
  "golib \<Rightarrow> (InMemorySubscriberRepository, InMemoryCache) world SubscriberService" where
  "NewSubscriberService L =
     \<lparr>repo = InMemorySubscriberRepository_impl L, cache = InMemoryCache_impl L\<rparr>"

definition NewTestApp :: "(InMemorySubscriberRepository, InMemoryCache) world" where
  "NewTestApp =
     \<lparr>heap = (\<lambda>p. \<lparr>ID = 0, Email = [], Name = [], CreatedAt = 0, UpdatedAt = 0\<rparr>),
      next_ref = 0,
      repo_state = NewInMemorySubscriberRepository,
      cache_state = NewInMemoryCache,
      recorder = NewTestSpanRecorder,
      logged = []\<rparr>"

definition ClearSpans :: "('r, 'c) world \<Rightarrow> ('r, 'c) world" where
  "ClearSpans w = w\<lparr>recorder := TestSpanRecorder_Clear (recorder w)\<rparr>"

section \<open>The read-through flow (package service)\<close>

text \<open>
  The service file passes a \<^verbatim>\<open>uuid.UUID\<close> to \<^verbatim>\<open>repo.GetByID\<close> and \<^verbatim>\<open>repo.Delete\<close>,
  whose declared parameter is a string; the model hands over \<^verbatim>\<open>id.String()\<close>, the
  text the HTTP handlers pass on. The span of a service method ends when the method
  returns, after the spans of the calls it made. The arguments \<open>t_get\<close>, \<open>t_set\<close>,
  \<open>t_new\<close>, \<open>t_mod\<close> and \<open>t_upd\<close> are the clock readings of the calls made on the way.
\<close>

definition SubscriberService_CreateSubscriber ::
  "golib \<Rightarrow> ('r, 'c) world SubscriberService \<Rightarrow> UUID \<Rightarrow> Time \<Rightarrow> Time
    \<Rightarrow> CreateSubscriberRequest \<Rightarrow> ('r, 'c) world \<Rightarrow> (error + ref) \<times> ('r, 'c) world" where
  "SubscriberService_CreateSubscriber L s new_id t_new t_set req w0 =
    (let span = Start ''subscriber.service.create''
           [(''subscriber.email'', StringValue (req_Email req)),
            (''subscriber.name'', StringValue (req_Name req))];
         w1 = InfoWithTracing ''Creating new subscriber''
           [(''email'', StringValue (req_Email req)),
            (''name'', StringValue (req_Name req))] w0;
         (sub, w2) = NewSubscriber new_id t_new (req_Email req) (req_Name req) w1
     in case Repo_Create (repo s) sub w2 of
          (Some err, w3) \<Rightarrow>
            (let w4 = ErrorWithTracing ''Failed to create subscriber'' err
                   [(''subscriber_id'', StringValue (uuid_String L (ID (heap w3 sub)))),
                    (''email'', StringValue (req_Email req))] w3
             in (Inl err, End (RecordError span err) w4))
        | (None, w3) \<Rightarrow>
            (let cacheKey = GenerateCacheKey L (ID (heap w3 sub));
                 (cerr, w4) = Cache_Set (cache s) t_set cacheKey sub (5 * Minute) w3;
                 w5 = (case cerr of
                         Some err \<Rightarrow>
                           WarnWithTracing ''Failed to cache subscriber''
                             [(''subscriber_id'',
                                 StringValue (uuid_String L (ID (heap w4 sub)))),
                              (''error'', StringValue (Error_msg err))] w4
                       | None \<Rightarrow> w4);
                 w6 = InfoWithTracing ''Successfully created subscriber''
                   [(''subscriber_id'', StringValue (uuid_String L (ID (heap w5 sub)))),
                    (''email'', StringValue (Email (heap w5 sub)))] w5
             in (Inr sub,
                 End (SetAttributes span
                        [(''subscriber.id'', StringValue (uuid_String L (ID (heap w6 sub)))),
                         (''success'', BoolValue True)]) w6)))"

definition SubscriberService_GetSubscriber ::
  "golib \<Rightarrow> ('r, 'c) world SubscriberService \<Rightarrow> Time \<Rightarrow> Time \<Rightarrow> UUID
    \<Rightarrow> ('r, 'c) world \<Rightarrow> (error + ref) \<times> ('r, 'c) world" where
  "SubscriberService_GetSubscriber L s t_get t_set uid w0 =
    (let span = Start ''subscriber.service.get''
           [(''subscriber.id'', StringValue (uuid_String L uid))];
         w1 = InfoWithTracing ''Retrieving subscriber''
           [(''subscriber_id'', StringValue (uuid_String L uid))] w0;
         cacheKey = GenerateCacheKey L uid
     in case Cache_Get (cache s) t_get cacheKey w1 of
          (Inr sub, w2) \<Rightarrow>
            (let w3 = InfoWithTracing ''Subscriber found in cache''
                   [(''subscriber_id'', StringValue (uuid_String L uid))] w2
             in (Inr sub,
                 End (SetAttributes span
                        [(''cache.hit'', BoolValue True), (''success'', BoolValue True)]) w3))
        | (Inl cache_err, w2) \<Rightarrow>
            (let w3 = InfoWithTracing ''Subscriber not in cache, fetching from database''
                   [(''subscriber_id'', StringValue (uuid_String L uid))] w2
             in case Repo_GetByID (repo s) (uuid_String L uid) w3 of
                  (Inl err, w4) \<Rightarrow>
                    (let w5 = ErrorWithTracing ''Failed to retrieve subscriber'' err
                           [(''subscriber_id'', StringValue (uuid_String L uid))] w4
                     in (Inl err, End (RecordError span err) w5))
                | (Inr sub, w4) \<Rightarrow>
                    (let (cerr, w5) = Cache_Set (cache s) t_set cacheKey sub (5 * Minute) w4;
                         w6 = (case cerr of
                                 Some err \<Rightarrow>
                                   WarnWithTracing ''Failed to cache subscriber''
                                     [(''subscriber_id'', StringValue (uuid_String L uid)),
                                      (''error'', StringValue (Error_msg err))] w5
                               | None \<Rightarrow> w5);
                         w7 = InfoWithTracing ''Successfully retrieved subscriber''
                           [(''subscriber_id'',
                               StringValue (uuid_String L (ID (heap w6 sub)))),
                            (''email'', StringValue (Email (heap w6 sub)))] w6
                     in (Inr sub,
                         End (SetAttributes span
                                [(''cache.hit'', BoolValue False),
                                 (''success'', BoolValue True)]) w7))))"

definition SubscriberService_GetAllSubscribers ::
  "('r, 'c) world SubscriberService \<Rightarrow> ('r, 'c) world
    \<Rightarrow> (error + ref list) \<times> ('r, 'c) world" where
  "SubscriberService_GetAllSubscribers s w0 =
    (let span = Start ''subscriber.service.get_all'' [];
         w1 = InfoWithTracing ''Retrieving all subscribers'' [] w0
     in case Repo_GetAll (repo s) w1 of
          (Inl err, w2) \<Rightarrow>
            (let w3 = ErrorWithTracing ''Failed to retrieve subscribers'' err [] w2
             in (Inl err, End (RecordError span err) w3))
        | (Inr subs, w2) \<Rightarrow>
            (let w3 = InfoWithTracing ''Successfully retrieved all subscribers''
                   [(''count'', IntValue (int (length subs)))] w2
             in (Inr subs,
                 End (SetAttributes span
                        [(''subscriber.count'', IntValue (int (length subs))),
                         (''success'', BoolValue True)]) w3)))"

definition SubscriberService_UpdateSubscriber ::
  "golib \<Rightarrow> ('r, 'c) world SubscriberService \<Rightarrow> Time \<Rightarrow> Time \<Rightarrow> UUID
    \<Rightarrow> CreateSubscriberRequest \<Rightarrow> ('r, 'c) world \<Rightarrow> (error + ref) \<times> ('r, 'c) world" where
  "SubscriberService_UpdateSubscriber L s t_mod t_upd uid req w0 =
    (let span = Start ''subscriber.service.update''
           [(''subscriber.id'', StringValue (uuid_String L uid))];
         w1 = InfoWithTracing ''Updating subscriber''
           [(''subscriber_id'', StringValue (uuid_String L uid)),
            (''email'', StringValue (req_Email req)),
            (''name'', StringValue (req_Name req))] w0
     in case Repo_GetByID (repo s) (uuid_String L uid) w1 of
          (Inl err, w2) \<Rightarrow>
            (let w3 = ErrorWithTracing ''Failed to find subscriber for update'' err
                   [(''subscriber_id'', StringValue (uuid_String L uid))] w2
             in (Inl err, End (RecordError span err) w3))
        | (Inr existing, w2) \<Rightarrow>
            (let w3 = w2\<lparr>heap := (heap w2)(existing :=
                         (heap w2 existing)\<lparr>Email := req_Email req, Name := req_Name req,
                                             UpdatedAt := t_mod\<rparr>)\<rparr>
             in case Repo_Update (repo s) t_upd existing w3 of
                  (Some err, w4) \<Rightarrow>
                    (let w5 = ErrorWithTracing ''Failed to update subscriber'' err
                           [(''subscriber_id'', StringValue (uuid_String L uid))] w4
                     in (Inl err, End (RecordError span err) w5))
                | (None, w4) \<Rightarrow>
                    (let cacheKey = GenerateCacheKey L uid;
                         (cerr, w5) = Cache_Delete (cache s) cacheKey w4;
                         w6 = (case cerr of
                                 Some err \<Rightarrow>
                                   WarnWithTracing ''Failed to invalidate cache''
                                     [(''subscriber_id'', StringValue (uuid_String L uid)),
                                      (''error'', StringValue (Error_msg err))] w5
                               | None \<Rightarrow> w5);
                         w7 = InfoWithTracing ''Successfully updated subscriber''
                           [(''subscriber_id'',
                               StringValue (uuid_String L (ID (heap w6 existing)))),
                            (''email'', StringValue (Email (heap w6 existing)))] w6
                     in (Inr existing,
                         End (SetAttributes span [(''success'', BoolValue True)]) w7))))"

definition SubscriberService_DeleteSubscriber ::
  "golib \<Rightarrow> ('r, 'c) world SubscriberService \<Rightarrow> UUID \<Rightarrow> ('r, 'c) world
    \<Rightarrow> error option \<times> ('r, 'c) world" where
  "SubscriberService_DeleteSubscriber L s uid w0 =
    (let span = Start ''subscriber.service.delete''
           [(''subscriber.id'', StringValue (uuid_String L uid))];
         w1 = InfoWithTracing ''Deleting subscriber''
           [(''subscriber_id'', StringValue (uuid_String L uid))] w0
     in case Repo_Delete (repo s) (uuid_String L uid) w1 of
          (Some err, w2) \<Rightarrow>
            (let w3 = ErrorWithTracing ''Failed to delete subscriber'' err
                   [(''subscriber_id'', StringValue (uuid_String L uid))] w2
             in (Some err, End (RecordError span err) w3))
        | (None, w2) \<Rightarrow>
            (let cacheKey = GenerateCacheKey L uid;
                 (cerr, w3) = Cache_Delete (cache s) cacheKey w2;
                 w4 = (case cerr of
                         Some err \<Rightarrow>
                           WarnWithTracing ''Failed to remove from cache''
                             [(''subscriber_id'', StringValue (uuid_String L uid)),
                              (''error'', StringValue (Error_msg err))] w3
                       | None \<Rightarrow> w3);
                 w5 = InfoWithTracing ''Successfully deleted subscriber''
                   [(''subscriber_id'', StringValue (uuid_String L uid))] w4
             in (None, End (SetAttributes span [(''success'', BoolValue True)]) w5)))"

section \<open>Runs of the in-memory application\<close>

text \<open>
  What can happen between two calls of one request: the five operations of the service,
  each with the values it reads from its environment, and a tick of the cache's reaper
  with the instant it reads. A run applies a sequence of them to the world.
\<close>

datatype request =
    CreateRequest UUID Time Time CreateSubscriberRequest
  | GetRequest Time Time UUID
  | GetAllRequest
  | UpdateRequest Time Time UUID CreateSubscriberRequest
  | DeleteRequest UUID
  | ReaperTick Time

fun step :: "golib \<Rightarrow> request
    \<Rightarrow> (InMemorySubscriberRepository, InMemoryCache) world
    \<Rightarrow> (InMemorySubscriberRepository, InMemoryCache) world" where
  "step L (CreateRequest new_id t_new t_set req) w =
     snd (SubscriberService_CreateSubscriber L (NewSubscriberService L) new_id t_new t_set req w)"
| "step L (GetRequest t_get t_set uid) w =
     snd (SubscriberService_GetSubscriber L (NewSubscriberService L) t_get t_set uid w)"
| "step L GetAllRequest w =
     snd (SubscriberService_GetAllSubscribers (NewSubscriberService L) w)"
| "step L (UpdateRequest t_mod t_upd uid req) w =
     snd (SubscriberService_UpdateSubscriber L (NewSubscriberService L) t_mod t_upd uid req w)"
| "step L (DeleteRequest uid) w =
     snd (SubscriberService_DeleteSubscriber L (NewSubscriberService L) uid w)"
| "step L (ReaperTick now) w = w\<lparr>cache_state := cleanup_tick (cache_state w) now\<rparr>"

fun run :: "golib \<Rightarrow> request list
    \<Rightarrow> (InMemorySubscriberRepository, InMemoryCache) world
    \<Rightarrow> (InMemorySubscriberRepository, InMemoryCache) world" where
  "run L [] w = w"
| "run L (r # rs) w = run L rs (step L r w)"

text \<open>
  \<open>other_traffic uid t r\<close>: the request \<open>r\<close> is for another identifier than \<open>uid\<close>, or
  lists all subscribers, or is a tick of the reaper at an instant not after \<open>t\<close>.
\<close>

fun other_traffic :: "UUID \<Rightarrow> Time \<Rightarrow> request \<Rightarrow> bool" where
  "other_traffic uid t (CreateRequest new_id t_new t_set req) = (new_id \<noteq> uid)"
| "other_traffic uid t (GetRequest t_get t_set uid') = (uid' \<noteq> uid)"
| "other_traffic uid t GetAllRequest = True"
| "other_traffic uid t (UpdateRequest t_mod t_upd uid' req) = (uid' \<noteq> uid)"
| "other_traffic uid t (DeleteRequest uid') = (uid' \<noteq> uid)"
| "other_traffic uid t (ReaperTick now) = (now \<le> t)"

text \<open>
  The state every run from an empty application is in: each subscriber of the origin
  store is stored under its own identifier and was allocated before.
\<close>

definition stored_under_own_ID ::
  "(InMemorySubscriberRepository, InMemoryCache) world \<Rightarrow> bool" where
  "stored_under_own_ID w \<longleftrightarrow>
     fmpred (\<lambda>u p. ID (heap w p) = u \<and> p < next_ref w) (subscribers (repo_state w))"

section \<open>The Dapr origin store (package repository)\<close>

text \<open>
  The second implementation of \<^verbatim>\<open>SubscriberRepository\<close>, which \<^verbatim>\<open>app.Config\<close> lets a
  caller inject. The Dapr client and \<^verbatim>\<open>encoding/json\<close> lie outside the repository:
  the three client calls are functions on the state \<open>'d\<close> of the state store, and the
  two JSON functions are parameters. A byte slice is a string. The test
  \<^verbatim>\<open>existing == nil\<close> after a successful \<^verbatim>\<open>GetByID\<close> never holds, since \<^verbatim>\<open>GetByID\<close>
  returns the address of a local variable, and has no branch in the model.
\<close>

record 'd dapr_Client =
  SaveState :: "string \<Rightarrow> string \<Rightarrow> string \<Rightarrow> 'd \<Rightarrow> error option \<times> 'd"
  GetState :: "string \<Rightarrow> string \<Rightarrow> 'd \<Rightarrow> (error + string) \<times> 'd"
  DeleteState :: "string \<Rightarrow> string \<Rightarrow> 'd \<Rightarrow> error option \<times> 'd"

record jsonlib =
  json_Marshal :: "Subscriber \<Rightarrow> error + string"
  json_Unmarshal :: "string \<Rightarrow> error + Subscriber"

record 'd DaprSubscriberRepository =
  client :: "'d dapr_Client"
  storeName :: string

definition ErrSubscriberNotFound :: error where
  "ErrSubscriberNotFound = Error ''subscriber not found''"

definition DaprSubscriberRepository_Create ::
  "golib \<Rightarrow> jsonlib \<Rightarrow> 'd DaprSubscriberRepository \<Rightarrow> ref \<Rightarrow> ('d, 'c) world
    \<Rightarrow> error option \<times> ('d, 'c) world" where
  "DaprSubscriberRepository_Create L J r sub w0 =
    (let span = Start ''subscriber.repository.create''
           [(''subscriber.id'', StringValue (uuid_String L (ID (heap w0 sub)))),
            (''subscriber.email'', StringValue (Email (heap w0 sub))),
            (''operation'', StringValue ''database.write''),
            (''dapr.store'', StringValue (storeName r))]
     in case json_Marshal J (heap w0 sub) of
          Inl err \<Rightarrow>
            (Some (Error (''failed to marshal subscriber: '' @ Error_msg err)),
             End (RecordError span err) w0)
        | Inr data \<Rightarrow>
            (case SaveState (client r) (storeName r) (uuid_String L (ID (heap w0 sub))) data
                    (repo_state w0) of
               (Some err, d1) \<Rightarrow>
                 (Some (Error (''failed to save subscriber to dapr state store: ''
                                @ Error_msg err)),
                  End (RecordError span err) (w0\<lparr>repo_state := d1\<rparr>))
             | (None, d1) \<Rightarrow>
                 (None,
                  End (SetAttributes span [(''success'', BoolValue True)])
                    (w0\<lparr>repo_state := d1\<rparr>))))"

definition DaprSubscriberRepository_GetByID ::
  "jsonlib \<Rightarrow> 'd DaprSubscriberRepository \<Rightarrow> string \<Rightarrow> ('d, 'c) world
    \<Rightarrow> (error + ref) \<times> ('d, 'c) world" where
  "DaprSubscriberRepository_GetByID J r uid w0 =
    (let span = Start ''subscriber.repository.get_by_id''
           [(''subscriber.id'', StringValue uid),
            (''operation'', StringValue ''database.read''),
            (''dapr.store'', StringValue (storeName r))]
     in case GetState (client r) (storeName r) uid (repo_state w0) of
          (Inl err, d1) \<Rightarrow>
            (Inl (Error (''failed to get subscriber from dapr state store: ''
                          @ Error_msg err)),
             End (RecordError span err) (w0\<lparr>repo_state := d1\<rparr>))
        | (Inr val, d1) \<Rightarrow>
            if length val = 0
            then (Inl ErrSubscriberNotFound,
                  End (SetAttributes span [(''found'', BoolValue False)])
                    (w0\<lparr>repo_state := d1\<rparr>))
            else (case json_Unmarshal J val of
                    Inl err \<Rightarrow>
                      (Inl (Error (''failed to unmarshal subscriber: '' @ Error_msg err)),
                       End (RecordError span err) (w0\<lparr>repo_state := d1\<rparr>))
                  | Inr decoded \<Rightarrow>
                      (let p = next_ref w0;
                           w1 = w0\<lparr>heap := (heap w0)(p := decoded), next_ref := Suc p,
                                   repo_state := d1\<rparr>
                       in (Inr p,
                           End (SetAttributes span
                                  [(''success'', BoolValue True),
                                   (''found'', BoolValue True),
                                   (''subscriber.email'', StringValue (Email decoded))])
                             w1))))"

definition DaprSubscriberRepository_GetAll ::
  "'d DaprSubscriberRepository \<Rightarrow> ('d, 'c) world \<Rightarrow> (error + ref list) \<times> ('d, 'c) world" where
  "DaprSubscriberRepository_GetAll r w0 =
    (let span = Start ''subscriber.repository.get_all''
           [(''operation'', StringValue ''database.read''),
            (''dapr.store'', StringValue (storeName r))]
     in (Inl (Error (''GetAll operation not supported by Dapr state store - ''
                      @ ''use a database with query capabilities for this operation'')),
         End (SetAttributes span
                [(''error'', StringValue ''get_all not supported by dapr state store'')])
           w0))"

definition DaprSubscriberRepository_Update ::
  "golib \<Rightarrow> jsonlib \<Rightarrow> 'd DaprSubscriberRepository \<Rightarrow> ref \<Rightarrow> ('d, 'c) world
    \<Rightarrow> error option \<times> ('d, 'c) world" where
  "DaprSubscriberRepository_Update L J r sub w0 =
    (let span = Start ''subscriber.repository.update''
           [(''subscriber.id'', StringValue (uuid_String L (ID (heap w0 sub)))),
            (''subscriber.email'', StringValue (Email (heap w0 sub))),
            (''operation'', StringValue ''database.write''),
            (''dapr.store'', StringValue (storeName r))]
     in case DaprSubscriberRepository_GetByID J r (uuid_String L (ID (heap w0 sub))) w0 of
          (Inl err, w1) \<Rightarrow> (Some err, End (RecordError span err) w1)
        | (Inr existing, w1) \<Rightarrow>
            (case json_Marshal J (heap w1 sub) of
               Inl err \<Rightarrow>
                 (Some (Error (''failed to marshal subscriber: '' @ Error_msg err)),
                  End (RecordError span err) w1)
             | Inr data \<Rightarrow>
                 (case SaveState (client r) (storeName r) (uuid_String L (ID (heap w1 sub)))
                         data (repo_state w1) of
                    (Some err, d2) \<Rightarrow>
                      (Some (Error (''failed to update subscriber in dapr state store: ''
                                     @ Error_msg err)),
                       End (RecordError span err) (w1\<lparr>repo_state := d2\<rparr>))
                  | (None, d2) \<Rightarrow>
                      (None,
                       End (SetAttributes span [(''success'', BoolValue True)])
                         (w1\<lparr>repo_state := d2\<rparr>)))))"

definition DaprSubscriberRepository_Delete ::
  "jsonlib \<Rightarrow> 'd DaprSubscriberRepository \<Rightarrow> string \<Rightarrow> ('d, 'c) world
    \<Rightarrow> error option \<times> ('d, 'c) world" where
  "DaprSubscriberRepository_Delete J r uid w0 =
    (let span = Start ''subscriber.repository.delete''
           [(''subscriber.id'', StringValue uid),
            (''operation'', StringValue ''database.delete''),
            (''dapr.store'', StringValue (storeName r))]
     in case DaprSubscriberRepository_GetByID J r uid w0 of
          (Inl err, w1) \<Rightarrow> (Some err, End (RecordError span err) w1)
        | (Inr existing, w1) \<Rightarrow>
            (case DeleteState (client r) (storeName r) uid (repo_state w1) of
               (Some err, d2) \<Rightarrow>
                 (Some (Error (''failed to delete subscriber from dapr state store: ''
                                @ Error_msg err)),
                  End (RecordError span err) (w1\<lparr>repo_state := d2\<rparr>))
             | (None, d2) \<Rightarrow>
                 (None,
                  End (SetAttributes span [(''success'', BoolValue True)])
                    (w1\<lparr>repo_state := d2\<rparr>))))"

definition DaprSubscriberRepository_impl ::
  "golib \<Rightarrow> jsonlib \<Rightarrow> 'd DaprSubscriberRepository \<Rightarrow> ('d, 'c) world SubscriberRepository" where
  "DaprSubscriberRepository_impl L J r =
    \<lparr>Repo_Create = DaprSubscriberRepository_Create L J r,
     Repo_GetByID = DaprSubscriberRepository_GetByID J r,
     Repo_GetAll = DaprSubscriberRepository_GetAll r,
     Repo_Update = (\<lambda>now. DaprSubscriberRepository_Update L J r),
     Repo_Delete = DaprSubscriberRepository_Delete J r\<rparr>"

section \<open>Values used in the examples\<close>

text \<open>
  A stand-in for the library functions at the values the examples use: the identifiers
  1 and 2 with their canonical texts, and the duration of five minutes.
\<close>

definition example_golib :: golib where
  "example_golib =
    \<lparr>uuid_String = (\<lambda>u.
        if u = 1 then ''00000000-0000-0000-0000-000000000001''
        else if u = 2 then ''00000000-0000-0000-0000-000000000002''
        else []),
     uuid_Parse = (\<lambda>s.
        if s = ''00000000-0000-0000-0000-000000000001'' then Inr 1
        else if s = ''00000000-0000-0000-0000-000000000002'' then Inr 2
        else Inl (Error ''invalid UUID format'')),
     Duration_String = (\<lambda>d. if d = 5 * Minute then ''5m0s'' else [])\<rparr>"

text \<open>
  A stand-in that is total: the identifier \<open>n\<close> is written as \<open>n\<close> strokes, and every
  text of strokes parses back to its identifier.
\<close>

definition unary_golib :: golib where
  "unary_golib =
    \<lparr>uuid_String = (\<lambda>u. replicate (unat u) CHR ''1''),
     uuid_Parse = (\<lambda>s.
        if list_all (\<lambda>ch. ch = CHR ''1'') s then Inr (of_nat (length s))
        else Inl (Error ''invalid UUID format'')),
     Duration_String = (\<lambda>d. [])\<rparr>"

definition example_request :: CreateSubscriberRequest where
  "example_request = \<lparr>req_Email = ''a@x.com'', req_Name = ''A''\<rparr>"

text \<open>
  A cache whose backing store is down: every method returns an error and leaves the
  world as it is.
\<close>

definition unavailable_Cache :: "('r, 'c) world Cache" where
  "unavailable_Cache =
    \<lparr>Cache_Get = (\<lambda>now key w. (Inl (Error ''cache unavailable''), w)),
     Cache_Set = (\<lambda>now key sub ttl w. (Some (Error ''cache unavailable''), w)),
     Cache_Delete = (\<lambda>key w. (Some (Error ''cache unavailable''), w)),
     Cache_Clear = (\<lambda>w. (Some (Error ''cache unavailable''), w))\<rparr>"

definition example_cache :: InMemoryCache where
  "example_cache = \<lparr>items = fmupd ''k'' \<lparr>subscriber = 0, expireAt = 5\<rparr> fmempty\<rparr>"

definition example_heap :: "ref \<Rightarrow> Subscriber" where
  "example_heap =
     (\<lambda>p. \<lparr>ID = of_nat p + 1, Email = ''a@x.com'', Name = ''A'', CreatedAt = 0, UpdatedAt = 0\<rparr>)"

definition example_repository :: InMemorySubscriberRepository where
  "example_repository = \<lparr>subscribers = fmupd 1 0 fmempty\<rparr>"

definition example_recorder :: TestSpanRecorder where
  "example_recorder =
     \<lparr>spans =
        [Start ''cache.get'' [(''cache.key'', StringValue ''k''),
                              (''operation'', StringValue ''cache.read'')],
         Start ''subscriber.repository.get_all''
           [(''operation'', StringValue ''database.read'')]]\<rparr>"

definition example_service ::
  "(InMemorySubscriberRepository, InMemoryCache) world SubscriberService" where
  "example_service =
     \<lparr>repo = InMemorySubscriberRepository_impl example_golib, cache = unavailable_Cache\<rparr>"

text \<open>A Dapr state store held in a map, with one stored subscriber.\<close>

definition example_jsonlib :: jsonlib where
  "example_jsonlib =
    \<lparr>json_Marshal = (\<lambda>sub. Inr ''{}''),
     json_Unmarshal = (\<lambda>data.
        if data = ''{}''
        then Inr \<lparr>ID = 0, Email = [], Name = [], CreatedAt = 0, UpdatedAt = 0\<rparr>
        else Inl (Error ''unexpected end of JSON input''))\<rparr>"

definition example_dapr :: "(string, string) fmap DaprSubscriberRepository" where
  "example_dapr =
    \<lparr>client =
       \<lparr>SaveState = (\<lambda>store key data d. (None, fmupd key data d)),
        GetState = (\<lambda>store key d.
           (Inr (case fmlookup d key of None \<Rightarrow> [] | Some data \<Rightarrow> data), d)),
        DeleteState = (\<lambda>store key d. (None, fmdrop key d))\<rparr>,
     storeName = ''statestore''\<rparr>"

definition example_dapr_world :: "((string, string) fmap, InMemoryCache) world" where
  "example_dapr_world =
     \<lparr>heap = (\<lambda>p. \<lparr>ID = 0, Email = [], Name = [], CreatedAt = 0, UpdatedAt = 0\<rparr>),
      next_ref = 0,
      repo_state = fmupd ''00000000-0000-0000-0000-000000000001'' ''{}'' fmempty,
      cache_state = NewInMemoryCache,
      recorder = NewTestSpanRecorder,
      logged = []\<rparr>"

section \<open>Comparing worlds\<close>

text \<open>
  \<open>same_stores w w'\<close>: the heap, the repository state and the cache state of \<open>w'\<close> are
  those of \<open>w\<close>, so that between the two only spans ended and log entries were written.
  \<open>levels_since w w'\<close>: the levels of the entries logged after \<open>w\<close>, in order.
\<close>

definition same_stores :: "('r, 'c) world \<Rightarrow> ('r, 'c) world \<Rightarrow> bool" where
  "same_stores w w' \<longleftrightarrow>
     heap w' = heap w \<and> next_ref w' = next_ref w \<and>
     repo_state w' = repo_state w \<and> cache_state w' = cache_state w"

definition levels_since :: "('r, 'c) world \<Rightarrow> ('r, 'c) world \<Rightarrow> Level list" where
  "levels_since w w' = map level (drop (length (logged w)) (logged w'))"

section \<open>The cache: frame, write and delete\<close>

lemma cleanup_range_lookup:
  "fmlookup (cleanup_range now keys m) k =
     (case fmlookup m k of
        None \<Rightarrow> None
      | Some item \<Rightarrow> if k \<in> set keys \<and> expireAt item < now then None else Some item)"
proof (induction keys arbitrary: m)
  case Nil
  then show ?case by (simp split: option.split)
next
  case (Cons key keys)
  show ?case
    by (cases "fmlookup m key") (auto simp: Cons.IH split: option.split)
qed

lemma cleanup_tick_lookup:
  "fmlookup (items (cleanup_tick c now)) k =
     (case fmlookup (items c) k of
        None \<Rightarrow> None
      | Some item \<Rightarrow> if expireAt item < now then None else Some item)"
  by (auto simp: cleanup_tick_def cleanup_range_lookup split: option.split)

lemma cleanup_lookup:
  "fmlookup (items (InMemoryCache_cleanup c ticks)) k =
     (case fmlookup (items c) k of
        None \<Rightarrow> None
      | Some item \<Rightarrow> if \<exists>s\<in>set ticks. expireAt item < s then None else Some item)"
proof (induction ticks arbitrary: c)
  case Nil
  then show ?case by (simp split: option.split)
next
  case (Cons now ticks)
  show ?case
    by (auto simp: Cons.IH cleanup_tick_lookup split: option.split)
qed

text \<open>
  Claim C7. \<^verbatim>\<open>Get\<close> never modifies the cache: the cache after the call is the cache
  before it, for every key and every state. In particular an entry that \<^verbatim>\<open>Get\<close> finds
  expired is still in the map after the call; it is the reaper's tick that removes it.
\<close>

theorem InMemoryCache_Get_leaves_cache_unchanged:
  "fst (snd (InMemoryCache_Get L h c now key)) = c \<and>
   (fmlookup (items c) key = Some item \<and> expireAt item < now \<longrightarrow>
      fmlookup (items (fst (snd (InMemoryCache_Get L h c now key)))) key = Some item \<and>
      fmlookup (items (cleanup_tick c now)) key = None)"
  by (simp add: InMemoryCache_Get_def Let_def cleanup_tick_lookup split: option.split)

theorem InMemoryCache_Get_leaves_cache_unchanged_witness:
  "fmlookup (items example_cache) ''k'' = Some \<lparr>subscriber = 0, expireAt = 5\<rparr> \<and>
   fmlookup (items (fst (snd (InMemoryCache_Get example_golib (heap NewTestApp)
       example_cache 10 ''k'')))) ''k'' = Some \<lparr>subscriber = 0, expireAt = 5\<rparr> \<and>
   fmlookup (items (cleanup_tick example_cache 10)) ''k'' = None"
  using InMemoryCache_Get_leaves_cache_unchanged
    [of example_golib "heap NewTestApp" example_cache 10 "''k''"
        "\<lparr>subscriber = 0, expireAt = 5\<rparr>"]
  by (simp add: example_cache_def)

text \<open>
  Claim C8, amended. For every key, every subscriber that is not nil and every ttl,
  \<^verbatim>\<open>Set\<close> returns a nil error, leaves under the key the entry made of the value and the
  instant \<open>now + ttl\<close>, whatever was stored there before, and leaves the entry of
  every other key as it was. With a nil subscriber \<^verbatim>\<open>Set\<close> does not return: it panics
  on the nil dereference, with the cache untouched and no span ended.
\<close>

theorem InMemoryCache_Set_stores_entry:
  "fst (InMemoryCache_Set L h c now key (Some sub) ttl) = Inr None \<and>
   fmlookup (items (fst (snd (InMemoryCache_Set L h c now key (Some sub) ttl)))) key
     = Some \<lparr>subscriber = sub, expireAt = now + ttl\<rparr> \<and>
   (\<forall>k. k \<noteq> key \<longrightarrow>
      fmlookup (items (fst (snd (InMemoryCache_Set L h c now key (Some sub) ttl)))) k
        = fmlookup (items c) k) \<and>
   InMemoryCache_Set L h c now key None ttl = (Inl NilPointerDereference, c, [])"
  by (simp add: InMemoryCache_Set_def Let_def)

theorem InMemoryCache_Set_stores_entry_witness:
  "fst (InMemoryCache_Set example_golib example_heap example_cache 7 ''j'' (Some 1) 3)
     = Inr None \<and>
   fmlookup (items (fst (snd (InMemoryCache_Set example_golib example_heap
       example_cache 7 ''j'' (Some 1) 3)))) ''j'' = Some \<lparr>subscriber = 1, expireAt = 10\<rparr> \<and>
   fmlookup (items (fst (snd (InMemoryCache_Set example_golib example_heap
       example_cache 7 ''k'' (Some 1) 3)))) ''k'' = Some \<lparr>subscriber = 1, expireAt = 10\<rparr> \<and>
   fmlookup (items (fst (snd (InMemoryCache_Set example_golib example_heap
       example_cache 7 ''j'' (Some 1) 3)))) ''k'' = Some \<lparr>subscriber = 0, expireAt = 5\<rparr>"
  using InMemoryCache_Set_stores_entry
    [of example_golib example_heap example_cache 7 "''j''" 1 3]
    InMemoryCache_Set_stores_entry
    [of example_golib example_heap example_cache 7 "''k''" 1 3]
  by (simp add: example_cache_def)

text \<open>A \<^verbatim>\<open>Set\<close> of a nil subscriber returns no error value at all: it panics.\<close>

theorem InMemoryCache_Set_nil_counterexample:
  "InMemoryCache_Set example_golib example_heap example_cache 7 ''j'' None 3
     = (Inl NilPointerDereference, example_cache, [])"
  by (simp add: InMemoryCache_Set_def)

text \<open>
  Claim C9. \<^verbatim>\<open>Delete\<close> is total and idempotent: for every key it returns a nil error
  whether or not the key is present, the key has no entry afterwards, the other keys
  keep their entries, and a second \<^verbatim>\<open>Delete\<close> of the same key returns a nil error and
  leaves the cache that the first one left.
\<close>

theorem InMemoryCache_Delete_idempotent:
  "fst (InMemoryCache_Delete c key) = None \<and>
   fmlookup (items (fst (snd (InMemoryCache_Delete c key)))) key = None \<and>
   (\<forall>k. k \<noteq> key \<longrightarrow>
      fmlookup (items (fst (snd (InMemoryCache_Delete c key)))) k = fmlookup (items c) k) \<and>
   fst (InMemoryCache_Delete (fst (snd (InMemoryCache_Delete c key))) key) = None \<and>
   fst (snd (InMemoryCache_Delete (fst (snd (InMemoryCache_Delete c key))) key))
     = fst (snd (InMemoryCache_Delete c key))"
  by (simp add: InMemoryCache_Delete_def Let_def)

theorem InMemoryCache_Delete_idempotent_witness:
  "fst (InMemoryCache_Delete example_cache ''k'') = None \<and>
   fmlookup (items (fst (snd (InMemoryCache_Delete example_cache ''k'')))) ''k'' = None \<and>
   fst (InMemoryCache_Delete NewInMemoryCache ''k'') = None \<and>
   fst (snd (InMemoryCache_Delete (fst (snd (InMemoryCache_Delete example_cache ''k''))) ''k''))
     = fst (snd (InMemoryCache_Delete example_cache ''k''))"
  using InMemoryCache_Delete_idempotent [of example_cache "''k''"]
    InMemoryCache_Delete_idempotent [of NewInMemoryCache "''k''"]
  by simp

section \<open>The in-memory origin store: errors leave it untouched\<close>

text \<open>
  Claim C10. Every mutating operation of the in-memory origin store is atomic on error.
  \<^verbatim>\<open>Create\<close> returns an error exactly when the identifier is already stored,
  \<^verbatim>\<open>Update\<close> exactly when it is not stored, \<^verbatim>\<open>Delete\<close> exactly when the text is
  malformed or the identifier is not stored; and whenever one of them returns an error,
  the repository (and, for \<^verbatim>\<open>Update\<close>, the subscriber object) is as it was before
  the call.
\<close>

theorem InMemorySubscriberRepository_atomic_on_error:
  "(fst (InMemorySubscriberRepository_Create L h r sub) \<noteq> None
      \<longleftrightarrow> fmlookup (subscribers r) (ID (h sub)) \<noteq> None) \<and>
   (fst (InMemorySubscriberRepository_Create L h r sub) \<noteq> None
      \<longrightarrow> fst (snd (InMemorySubscriberRepository_Create L h r sub)) = r) \<and>
   (fst (InMemorySubscriberRepository_Update L h r now sub) \<noteq> None
      \<longleftrightarrow> fmlookup (subscribers r) (ID (h sub)) = None) \<and>
   (fst (InMemorySubscriberRepository_Update L h r now sub) \<noteq> None
      \<longrightarrow> fst (snd (InMemorySubscriberRepository_Update L h r now sub)) = h
          \<and> fst (snd (snd (InMemorySubscriberRepository_Update L h r now sub))) = r) \<and>
   (fst (InMemorySubscriberRepository_Delete L r uid) \<noteq> None
      \<longleftrightarrow> (case uuid_Parse L uid of
             Inl err \<Rightarrow> True
           | Inr parsedID \<Rightarrow> fmlookup (subscribers r) parsedID = None)) \<and>
   (fst (InMemorySubscriberRepository_Delete L r uid) \<noteq> None
      \<longrightarrow> fst (snd (InMemorySubscriberRepository_Delete L r uid)) = r)"
  by (simp add: InMemorySubscriberRepository_Create_def
      InMemorySubscriberRepository_Update_def InMemorySubscriberRepository_Delete_def
      Let_def split: sum.split)

theorem InMemorySubscriberRepository_atomic_on_error_witness:
  "fst (InMemorySubscriberRepository_Create example_golib example_heap example_repository 0)
     \<noteq> None \<and>
   fst (snd (InMemorySubscriberRepository_Create example_golib example_heap
     example_repository 0)) = example_repository \<and>
   fst (InMemorySubscriberRepository_Update example_golib example_heap example_repository 9 1)
     \<noteq> None \<and>
   fst (snd (InMemorySubscriberRepository_Update example_golib example_heap
     example_repository 9 1)) = example_heap \<and>
   fst (snd (snd (InMemorySubscriberRepository_Update example_golib example_heap
     example_repository 9 1))) = example_repository \<and>
   fst (InMemorySubscriberRepository_Delete example_golib example_repository ''not-a-uuid'')
     \<noteq> None \<and>
   fst (snd (InMemorySubscriberRepository_Delete example_golib example_repository
     ''not-a-uuid'')) = example_repository \<and>
   fst (InMemorySubscriberRepository_Delete example_golib example_repository
     ''00000000-0000-0000-0000-000000000002'') \<noteq> None \<and>
   fst (snd (InMemorySubscriberRepository_Delete example_golib example_repository
     ''00000000-0000-0000-0000-000000000002'')) = example_repository"
  using InMemorySubscriberRepository_atomic_on_error
    [of example_golib example_heap example_repository 0 9 "''not-a-uuid''"]
    InMemorySubscriberRepository_atomic_on_error
    [of example_golib example_heap example_repository 1 9
       "''00000000-0000-0000-0000-000000000002''"]
  by (simp add: example_golib_def example_heap_def example_repository_def)

section \<open>The span recorder: counting and querying\<close>

lemma operation_attr_loop_iff:
  "operation_attr_loop attrs operation
     \<longleftrightarrow> (\<exists>attr \<in> set attrs. fst attr = ''operation'' \<and> AsString (snd attr) = operation)"
  by (induction attrs) auto

lemma GetSpansByOperation_loop_filter:
  "GetSpansByOperation_loop sps operation result =
     result @ filter (\<lambda>span. operation_attr_loop (attributes span) operation) sps"
  by (induction sps arbitrary: result) auto

lemma GetSpansByOperation_filter:
  "TestSpanRecorder_GetSpansByOperation t operation =
     filter (\<lambda>span. operation_attr_loop (attributes span) operation) (spans t)"
  by (simp add: TestSpanRecorder_GetSpansByOperation_def GetSpansByOperation_loop_filter)

lemma record_batches_spans:
  "spans (record_batches t batches) = spans t @ concat batches"
  by (induction batches arbitrary: t) (auto simp: TestSpanRecorder_ExportSpans_def)

lemma AsString_nonempty:
  "x \<noteq> [] \<Longrightarrow> AsString v = x \<longleftrightarrow> v = StringValue x"
  by (cases v) auto

lemma operation_attr_loop_nonempty:
  "x \<noteq> [] \<Longrightarrow>
   operation_attr_loop attrs x \<longleftrightarrow> (''operation'', StringValue x) \<in> set attrs"
  by (induction attrs) (auto simp: AsString_nonempty)

text \<open>
  Claim C5, amended. After \<^verbatim>\<open>Clear\<close>, \<^verbatim>\<open>Count\<close> is 0. After recording batches that
  hold N spans in all on a cleared recorder, \<^verbatim>\<open>Count\<close> is N, and each \<^verbatim>\<open>ExportSpans\<close>
  adds the length of its batch. \<^verbatim>\<open>GetSpansByOperation x\<close> is, in recording order,
  exactly the recorded spans that have an attribute with key \<^verbatim>\<open>operation\<close> whose value
  read with \<^verbatim>\<open>AsString\<close> is \<open>x\<close>, so it is never longer than \<^verbatim>\<open>Count\<close>. For every
  \<open>x\<close> but the empty string these are exactly the spans with the attribute entry
  \<^verbatim>\<open>operation\<close> equal to the string \<open>x\<close>; for the empty string they also include the
  spans whose \<^verbatim>\<open>operation\<close> attribute is not a string.
\<close>

theorem TestSpanRecorder_count_and_query:
  "TestSpanRecorder_Count (TestSpanRecorder_Clear t) = 0 \<and>
   TestSpanRecorder_Count (record_batches (TestSpanRecorder_Clear t) batches)
     = int (length (concat batches)) \<and>
   TestSpanRecorder_Count (snd (TestSpanRecorder_ExportSpans t batch))
     = TestSpanRecorder_Count t + int (length batch) \<and>
   TestSpanRecorder_GetSpansByOperation t x
     = filter (\<lambda>span. \<exists>attr \<in> set (attributes span).
                 fst attr = ''operation'' \<and> AsString (snd attr) = x) (spans t) \<and>
   int (length (TestSpanRecorder_GetSpansByOperation t x)) \<le> TestSpanRecorder_Count t \<and>
   (x \<noteq> [] \<longrightarrow>
      TestSpanRecorder_GetSpansByOperation t x
        = filter (\<lambda>span. (''operation'', StringValue x) \<in> set (attributes span)) (spans t))"
  by (simp add: TestSpanRecorder_Count_def TestSpanRecorder_Clear_def
      TestSpanRecorder_ExportSpans_def record_batches_spans GetSpansByOperation_filter
      operation_attr_loop_nonempty)
    (simp add: operation_attr_loop_iff)

theorem TestSpanRecorder_count_and_query_witness:
  "TestSpanRecorder_Count (TestSpanRecorder_Clear example_recorder) = 0 \<and>
   TestSpanRecorder_Count
     (record_batches (TestSpanRecorder_Clear example_recorder)
        [spans example_recorder, [], spans example_recorder]) = 4 \<and>
   TestSpanRecorder_GetSpansByOperation example_recorder ''cache.read''
     = [Start ''cache.get'' [(''cache.key'', StringValue ''k''),
                             (''operation'', StringValue ''cache.read'')]] \<and>
   TestSpanRecorder_Count example_recorder = 2"
  using TestSpanRecorder_count_and_query
    [of example_recorder "[spans example_recorder, [], spans example_recorder]" "[]"
        "''cache.read''"]
  by (simp add: example_recorder_def Start_def TestSpanRecorder_Count_def)

text \<open>
  Asked for the empty string, the recorder returns a span whose \<^verbatim>\<open>operation\<close> is the
  integer 5, though the span has no attribute entry \<^verbatim>\<open>operation\<close> equal to the empty
  string.
\<close>

theorem TestSpanRecorder_query_counterexample:
  "TestSpanRecorder_GetSpansByOperation
     \<lparr>spans = [Start ''job'' [(''operation'', IntValue 5)]]\<rparr> []
     = [Start ''job'' [(''operation'', IntValue 5)]] \<and>
   filter (\<lambda>span. (''operation'', StringValue []) \<in> set (attributes span))
     [Start ''job'' [(''operation'', IntValue 5)]] = []"
  by (simp add: TestSpanRecorder_GetSpansByOperation_def Start_def)

section \<open>The cache: what a read reports\<close>

text \<open>
  Claim C3, amended. \<^verbatim>\<open>Get\<close> has no boolean result: it reports a missing entry by
  returning the error \<^verbatim>\<open>key not found in cache\<close> and an expired entry by returning the
  error \<^verbatim>\<open>key expired in cache\<close>, each with a nil value; it returns a nil error, with
  the stored value, exactly when the entry is present and its expiry is not before the
  instant of the call.
\<close>

theorem InMemoryCache_Get_not_found_is_error:
  "fst (InMemoryCache_Get L h c now key) =
     (case fmlookup (items c) key of
        None \<Rightarrow> Inl (Error ''key not found in cache'')
      | Some item \<Rightarrow>
          if expireAt item < now then Inl (Error ''key expired in cache'')
          else Inr (subscriber item))"
  by (simp add: InMemoryCache_Get_def Let_def split: option.split)

theorem InMemoryCache_Get_not_found_is_error_witness:
  "fst (InMemoryCache_Get example_golib example_heap example_cache 10 ''k'')
     = Inl (Error ''key expired in cache'') \<and>
   fst (InMemoryCache_Get example_golib example_heap example_cache 10 ''j'')
     = Inl (Error ''key not found in cache'') \<and>
   fst (InMemoryCache_Get example_golib example_heap example_cache 5 ''k'') = Inr 0"
  using InMemoryCache_Get_not_found_is_error [of example_golib example_heap example_cache 10 "''k''"]
    InMemoryCache_Get_not_found_is_error [of example_golib example_heap example_cache 10 "''j''"]
    InMemoryCache_Get_not_found_is_error [of example_golib example_heap example_cache 5 "''k''"]
  by (simp add: example_cache_def)

text \<open>A read of an empty cache returns an error value.\<close>

theorem InMemoryCache_Get_miss_counterexample:
  "fst (InMemoryCache_Get example_golib example_heap NewInMemoryCache 0 ''k'')
     = Inl (Error ''key not found in cache'')"
  by (simp add: InMemoryCache_Get_def NewInMemoryCache_def Let_def)

lemma Set_then_cleanup_lookup:
  "fmlookup (items (InMemoryCache_cleanup
       (fst (snd (InMemoryCache_Set L h c now key (Some sub) d))) ticks)) key =
     (if \<exists>s\<in>set ticks. now + d < s then None
      else Some \<lparr>subscriber = sub, expireAt = now + d\<rparr>)"
  by (simp add: cleanup_lookup InMemoryCache_Set_def Let_def)

text \<open>
  Claim C2, amended. Let a key be set with TTL \<open>d\<close> at the instant \<open>now\<close>, and let
  the reaper tick at the instants \<open>ticks\<close> before a \<^verbatim>\<open>Get\<close> at the instant \<open>now + t\<close>.
  If \<open>t \<le> d\<close> the \<^verbatim>\<open>Get\<close> returns the value, with \<^verbatim>\<open>cache.hit\<close> true and
  \<^verbatim>\<open>cache.result\<close> \<^verbatim>\<open>hit\<close>, whether or not the reaper has run. If \<open>d < t\<close> it returns
  an error with \<^verbatim>\<open>cache.hit\<close> false; \<^verbatim>\<open>cache.result\<close> is \<^verbatim>\<open>expired\<close> while no tick of
  the reaper has come after the expiry, and \<^verbatim>\<open>miss\<close> once one has removed the entry.
\<close>

theorem InMemoryCache_expiry:
  "(t \<le> d \<and> (\<forall>s\<in>set ticks. s \<le> now + t) \<longrightarrow>
      (let c1 = InMemoryCache_cleanup (fst (snd (InMemoryCache_Set L h c now key (Some sub) d))) ticks;
           got = InMemoryCache_Get L h c1 (now + t) key
       in fst got = Inr sub \<and>
          map (\<lambda>span. (map_of (attributes span) ''cache.hit'',
                        map_of (attributes span) ''cache.result'')) (snd (snd got))
            = [(Some (BoolValue True), Some (StringValue ''hit''))])) \<and>
   (d < t \<longrightarrow>
      (let c1 = InMemoryCache_cleanup (fst (snd (InMemoryCache_Set L h c now key (Some sub) d))) ticks;
           got = InMemoryCache_Get L h c1 (now + t) key;
           swept = (\<exists>s\<in>set ticks. now + d < s)
       in fst got = Inl (Error (if swept then ''key not found in cache''
                                else ''key expired in cache'')) \<and>
          map (\<lambda>span. (map_of (attributes span) ''cache.hit'',
                        map_of (attributes span) ''cache.result'')) (snd (snd got))
            = [(Some (BoolValue False),
                Some (StringValue (if swept then ''miss'' else ''expired'')))]))"
proof (intro conjI impI)
  assume live: "t \<le> d \<and> (\<forall>s\<in>set ticks. s \<le> now + t)"
  then have "\<not> (\<exists>s\<in>set ticks. now + d < s)" by fastforce
  then have look: "fmlookup (items (InMemoryCache_cleanup
       (fst (snd (InMemoryCache_Set L h c now key (Some sub) d))) ticks)) key
       = Some \<lparr>subscriber = sub, expireAt = now + d\<rparr>"
    by (simp only: Set_then_cleanup_lookup if_False)
  from live show "let c1 = InMemoryCache_cleanup
         (fst (snd (InMemoryCache_Set L h c now key (Some sub) d))) ticks;
       got = InMemoryCache_Get L h c1 (now + t) key
     in fst got = Inr sub \<and>
        map (\<lambda>span. (map_of (attributes span) ''cache.hit'',
                      map_of (attributes span) ''cache.result'')) (snd (snd got))
          = [(Some (BoolValue True), Some (StringValue ''hit''))]"
    by (simp add: Let_def InMemoryCache_Get_def look Start_def SetAttributes_def)
next
  assume late: "d < t"
  show "let c1 = InMemoryCache_cleanup
         (fst (snd (InMemoryCache_Set L h c now key (Some sub) d))) ticks;
       got = InMemoryCache_Get L h c1 (now + t) key;
       swept = (\<exists>s\<in>set ticks. now + d < s)
     in fst got = Inl (Error (if swept then ''key not found in cache''
                              else ''key expired in cache'')) \<and>
        map (\<lambda>span. (map_of (attributes span) ''cache.hit'',
                      map_of (attributes span) ''cache.result'')) (snd (snd got))
          = [(Some (BoolValue False),
              Some (StringValue (if swept then ''miss'' else ''expired'')))]"
  proof (cases "\<exists>s\<in>set ticks. now + d < s")
    case True
    then have "fmlookup (items (InMemoryCache_cleanup
       (fst (snd (InMemoryCache_Set L h c now key (Some sub) d))) ticks)) key = None"
      by (simp only: Set_then_cleanup_lookup if_True)
    with True show ?thesis
      by (simp add: Let_def InMemoryCache_Get_def Start_def SetAttributes_def)
  next
    case False
    then have "fmlookup (items (InMemoryCache_cleanup
       (fst (snd (InMemoryCache_Set L h c now key (Some sub) d))) ticks)) key
       = Some \<lparr>subscriber = sub, expireAt = now + d\<rparr>"
      by (simp only: Set_then_cleanup_lookup if_False)
    with False late show ?thesis
      by (simp add: Let_def InMemoryCache_Get_def Start_def SetAttributes_def)
  qed
qed

theorem InMemoryCache_expiry_witness:
  "(let c1 = InMemoryCache_cleanup
        (fst (snd (InMemoryCache_Set example_golib example_heap NewInMemoryCache 100 ''k'' (Some 0) 5)))
        [103];
       got = InMemoryCache_Get example_golib example_heap c1 (100 + 4) ''k''
    in fst got = Inr 0 \<and>
       map (\<lambda>span. (map_of (attributes span) ''cache.hit'',
                     map_of (attributes span) ''cache.result'')) (snd (snd got))
         = [(Some (BoolValue True), Some (StringValue ''hit''))]) \<and>
   (let c1 = InMemoryCache_cleanup
        (fst (snd (InMemoryCache_Set example_golib example_heap NewInMemoryCache 100 ''k'' (Some 0) 5)))
        [103];
       got = InMemoryCache_Get example_golib example_heap c1 (100 + 6) ''k''
    in fst got = Inl (Error ''key expired in cache'') \<and>
       map (\<lambda>span. (map_of (attributes span) ''cache.hit'',
                     map_of (attributes span) ''cache.result'')) (snd (snd got))
         = [(Some (BoolValue False), Some (StringValue ''expired''))])"
  using InMemoryCache_expiry [of 4 5 "[103]" 100 example_golib example_heap NewInMemoryCache "''k''" 0]
    InMemoryCache_expiry [of 6 5 "[103]" 100 example_golib example_heap NewInMemoryCache "''k''" 0]
  by (simp add: Let_def)

text \<open>
  At \<open>t = d\<close> the entry is still found, and after a tick of the reaper an expired
  entry is reported as a miss.
\<close>

theorem InMemoryCache_expiry_counterexample:
  "fst (InMemoryCache_Get example_golib example_heap
          (fst (snd (InMemoryCache_Set example_golib example_heap NewInMemoryCache
                       100 ''k'' (Some 0) 5)))
          (100 + 5) ''k'') = Inr 0 \<and>
   map (\<lambda>span. map_of (attributes span) ''cache.result'')
     (snd (snd (InMemoryCache_Get example_golib example_heap
        (InMemoryCache_cleanup
           (fst (snd (InMemoryCache_Set example_golib example_heap NewInMemoryCache
                        100 ''k'' (Some 0) 5))) [107])
        (100 + 8) ''k'')))
     = [Some (StringValue ''miss'')]"
proof -
  have a: "fmlookup (items (fst (snd (InMemoryCache_Set example_golib example_heap
             NewInMemoryCache 100 ''k'' (Some 0) 5)))) ''k''
           = Some \<lparr>subscriber = 0, expireAt = 105\<rparr>"
    by (simp add: InMemoryCache_Set_def Let_def)
  have b: "fmlookup (items (InMemoryCache_cleanup
             (fst (snd (InMemoryCache_Set example_golib example_heap NewInMemoryCache
                          100 ''k'' (Some 0) 5))) [107])) ''k'' = None"
    by (simp only: Set_then_cleanup_lookup) simp
  show ?thesis
    by (simp add: InMemoryCache_Get_def Let_def a b Start_def SetAttributes_def
        del: InMemoryCache_cleanup.simps)
qed

section \<open>The operation attribute of cache and origin spans\<close>

text \<open>
  Property X1. Every span of the in-memory cache carries the operation \<^verbatim>\<open>cache.read\<close>
  (\<^verbatim>\<open>Get\<close>) or \<^verbatim>\<open>cache.write\<close> (\<^verbatim>\<open>Set\<close>, \<^verbatim>\<open>Delete\<close>, \<^verbatim>\<open>Clear\<close>), and every span of
  the in-memory origin store carries \<^verbatim>\<open>database.read\<close> (\<^verbatim>\<open>GetByID\<close>, \<^verbatim>\<open>GetAll\<close>) or
  \<^verbatim>\<open>database.write\<close> (\<^verbatim>\<open>Create\<close>, \<^verbatim>\<open>Update\<close>, \<^verbatim>\<open>Delete\<close>).
\<close>

theorem in_memory_span_operations:
  "(\<forall>span \<in> set (snd (snd (InMemoryCache_Get L h c now key))).
      map_of (attributes span) ''operation'' = Some (StringValue ''cache.read'')) \<and>
   (\<forall>span \<in> set (snd (snd (InMemoryCache_Set L h c now key ptr ttl))).
      map_of (attributes span) ''operation'' = Some (StringValue ''cache.write'')) \<and>
   (\<forall>span \<in> set (snd (snd (InMemoryCache_Delete c key))).
      map_of (attributes span) ''operation'' = Some (StringValue ''cache.write'')) \<and>
   (\<forall>span \<in> set (snd (snd (InMemoryCache_Clear c))).
      map_of (attributes span) ''operation'' = Some (StringValue ''cache.write'')) \<and>
   (\<forall>span \<in> set (snd (snd (InMemorySubscriberRepository_GetByID L r uid))).
      map_of (attributes span) ''operation'' = Some (StringValue ''database.read'')) \<and>
   (\<forall>span \<in> set (snd (snd (InMemorySubscriberRepository_GetAll r))).
      map_of (attributes span) ''operation'' = Some (StringValue ''database.read'')) \<and>
   (\<forall>span \<in> set (snd (snd (InMemorySubscriberRepository_Create L h r sub))).
      map_of (attributes span) ''operation'' = Some (StringValue ''database.write'')) \<and>
   (\<forall>span \<in> set (snd (snd (snd (InMemorySubscriberRepository_Update L h r now sub)))).
      map_of (attributes span) ''operation'' = Some (StringValue ''database.write'')) \<and>
   (\<forall>span \<in> set (snd (snd (InMemorySubscriberRepository_Delete L r uid))).
      map_of (attributes span) ''operation'' = Some (StringValue ''database.write''))"
  by (simp add: InMemoryCache_Get_def InMemoryCache_Set_def InMemoryCache_Delete_def
      InMemoryCache_Clear_def InMemorySubscriberRepository_GetByID_def
      InMemorySubscriberRepository_GetAll_def InMemorySubscriberRepository_Create_def
      InMemorySubscriberRepository_Update_def InMemorySubscriberRepository_Delete_def
      Start_def SetAttributes_def RecordError_def Let_def split: option.split sum.split)

theorem in_memory_span_operations_witness:
  "map (\<lambda>span. map_of (attributes span) ''operation'')
     (snd (snd (InMemoryCache_Get example_golib example_heap example_cache 0 ''k'')))
     = [Some (StringValue ''cache.read'')] \<and>
   map (\<lambda>span. map_of (attributes span) ''operation'')
     (snd (snd (InMemoryCache_Delete example_cache ''k'')))
     = [Some (StringValue ''cache.write'')] \<and>
   map (\<lambda>span. map_of (attributes span) ''operation'')
     (snd (snd (InMemorySubscriberRepository_GetByID example_golib example_repository
        ''00000000-0000-0000-0000-000000000001'')))
     = [Some (StringValue ''database.read'')] \<and>
   map (\<lambda>span. map_of (attributes span) ''operation'')
     (snd (snd (InMemorySubscriberRepository_Delete example_golib example_repository
        ''00000000-0000-0000-0000-000000000001'')))
     = [Some (StringValue ''database.write'')]"
  using in_memory_span_operations
    [where L = example_golib and h = example_heap and c = example_cache and now = 0
       and key = "''k''" and r = example_repository
       and uid = "''00000000-0000-0000-0000-000000000001''"]
  by (simp add: InMemoryCache_Get_def InMemoryCache_Delete_def
      InMemorySubscriberRepository_GetByID_def InMemorySubscriberRepository_Delete_def
      example_cache_def example_repository_def example_golib_def
      Start_def SetAttributes_def Let_def)

lemma DaprSubscriberRepository_Delete_last_span:
  "name (last (spans (recorder (snd (DaprSubscriberRepository_Delete J r uid w)))))
     = ''subscriber.repository.delete'' \<and>
   map_of (attributes (last (spans (recorder (snd (DaprSubscriberRepository_Delete J r uid w))))))
     ''operation'' = Some (StringValue ''database.delete'')"
  by (simp add: DaprSubscriberRepository_Delete_def End_def TestSpanRecorder_ExportSpans_def
      Start_def SetAttributes_def RecordError_def Let_def case_prod_beta
      split: option.split sum.split)

text \<open>
  Claim C4. Every span opened by a cache operation carries \<^verbatim>\<open>cache.read\<close> or
  \<^verbatim>\<open>cache.write\<close> and every span opened by an origin store operation carries
  \<^verbatim>\<open>database.read\<close> or \<^verbatim>\<open>database.write\<close>, \<^verbatim>\<open>Delete\<close> being a \<^verbatim>\<open>database.write\<close>.
  The Dapr origin store does not keep to it: deleting a stored subscriber succeeds and
  ends two spans, the one of the inner \<^verbatim>\<open>GetByID\<close> tagged \<^verbatim>\<open>database.read\<close> and the
  one of \<^verbatim>\<open>Delete\<close> itself tagged \<^verbatim>\<open>database.delete\<close>.
\<close>

theorem DaprSubscriberRepository_Delete_emits_database_delete:
  "fst (DaprSubscriberRepository_Delete example_jsonlib example_dapr
          ''00000000-0000-0000-0000-000000000001'' example_dapr_world) = None \<and>
   map (\<lambda>span. (name span, map_of (attributes span) ''operation''))
     (spans (recorder (snd (DaprSubscriberRepository_Delete example_jsonlib example_dapr
        ''00000000-0000-0000-0000-000000000001'' example_dapr_world))))
   = [(''subscriber.repository.get_by_id'', Some (StringValue ''database.read'')),
      (''subscriber.repository.delete'', Some (StringValue ''database.delete''))]"
  by (simp add: DaprSubscriberRepository_Delete_def DaprSubscriberRepository_GetByID_def
      example_dapr_def example_jsonlib_def example_dapr_world_def End_def
      TestSpanRecorder_ExportSpans_def NewTestSpanRecorder_def
      Start_def SetAttributes_def RecordError_def Let_def)

section \<open>The read-through flow: failures of the origin and of the cache\<close>

lemmas world_steps =
  End_def TestSpanRecorder_ExportSpans_def InfoWithTracing_def WarnWithTracing_def
  ErrorWithTracing_def same_stores_def levels_since_def Let_def

lemma Create_failure_semantics:
  "(let entry = NewSubscriber new_id t_new (req_Email req) (req_Name req)
        (InfoWithTracing ''Creating new subscriber''
           [(''email'', StringValue (req_Email req)),
            (''name'', StringValue (req_Name req))] w0);
        sub = fst entry;
        out = SubscriberService_CreateSubscriber L s new_id t_new t_set req w0
    in case Repo_Create (repo s) sub (snd entry) of
         (Some err, w3) \<Rightarrow>
           fst out = Inl err \<and> same_stores w3 (snd out) \<and>
           levels_since w3 (snd out) = [ErrorLevel]
       | (None, w3) \<Rightarrow>
           (case Cache_Set (cache s) t_set (GenerateCacheKey L (ID (heap w3 sub))) sub
                   (5 * Minute) w3 of
              (cerr, w4) \<Rightarrow>
                fst out = Inr sub \<and> same_stores w4 (snd out) \<and>
                levels_since w4 (snd out) =
                  (case cerr of Some err \<Rightarrow> [WarnLevel, InfoLevel] | None \<Rightarrow> [InfoLevel])))"
  by (simp add: SubscriberService_CreateSubscriber_def world_steps
      case_prod_beta split: option.split)

lemma Get_failure_semantics:
  "(let out = SubscriberService_GetSubscriber L s t_get t_set uid w0
    in case Cache_Get (cache s) t_get (GenerateCacheKey L uid)
              (InfoWithTracing ''Retrieving subscriber''
                 [(''subscriber_id'', StringValue (uuid_String L uid))] w0) of
         (Inr sub, w2) \<Rightarrow> fst out = Inr sub \<and> same_stores w2 (snd out)
       | (Inl cache_err, w2) \<Rightarrow>
           (case Repo_GetByID (repo s) (uuid_String L uid)
                   (InfoWithTracing ''Subscriber not in cache, fetching from database''
                      [(''subscriber_id'', StringValue (uuid_String L uid))] w2) of
              (Inl err, w4) \<Rightarrow>
                fst out = Inl err \<and> same_stores w4 (snd out) \<and>
                levels_since w4 (snd out) = [ErrorLevel]
            | (Inr sub, w4) \<Rightarrow>
                (case Cache_Set (cache s) t_set (GenerateCacheKey L uid) sub (5 * Minute) w4 of
                   (cerr, w5) \<Rightarrow>
                     fst out = Inr sub \<and> same_stores w5 (snd out) \<and>
                     levels_since w5 (snd out) =
                       (case cerr of Some err \<Rightarrow> [WarnLevel, InfoLevel]
                        | None \<Rightarrow> [InfoLevel]))))"
  by (simp add: SubscriberService_GetSubscriber_def world_steps
      case_prod_beta split: option.split sum.split)

lemma Update_failure_semantics:
  "(let out = SubscriberService_UpdateSubscriber L s t_mod t_upd uid req w0
    in case Repo_GetByID (repo s) (uuid_String L uid)
              (InfoWithTracing ''Updating subscriber''
                 [(''subscriber_id'', StringValue (uuid_String L uid)),
                  (''email'', StringValue (req_Email req)),
                  (''name'', StringValue (req_Name req))] w0) of
         (Inl err, w2) \<Rightarrow>
           fst out = Inl err \<and> same_stores w2 (snd out) \<and>
           levels_since w2 (snd out) = [ErrorLevel]
       | (Inr existing, w2) \<Rightarrow>
           (case Repo_Update (repo s) t_upd existing
                   (w2\<lparr>heap := (heap w2)(existing :=
                          (heap w2 existing)\<lparr>Email := req_Email req, Name := req_Name req,
                                              UpdatedAt := t_mod\<rparr>)\<rparr>) of
              (Some err, w4) \<Rightarrow>
                fst out = Inl err \<and> same_stores w4 (snd out) \<and>
                levels_since w4 (snd out) = [ErrorLevel]
            | (None, w4) \<Rightarrow>
                (case Cache_Delete (cache s) (GenerateCacheKey L uid) w4 of
                   (cerr, w5) \<Rightarrow>
                     fst out = Inr existing \<and> same_stores w5 (snd out) \<and>
                     levels_since w5 (snd out) =
                       (case cerr of Some err \<Rightarrow> [WarnLevel, InfoLevel]
                        | None \<Rightarrow> [InfoLevel]))))"
  by (simp add: SubscriberService_UpdateSubscriber_def world_steps
      case_prod_beta split: option.split sum.split)

lemma Delete_failure_semantics:
  "(let out = SubscriberService_DeleteSubscriber L s uid w0
    in case Repo_Delete (repo s) (uuid_String L uid)
              (InfoWithTracing ''Deleting subscriber''
                 [(''subscriber_id'', StringValue (uuid_String L uid))] w0) of
         (Some err, w2) \<Rightarrow>
           fst out = Some err \<and> same_stores w2 (snd out) \<and>
           levels_since w2 (snd out) = [ErrorLevel]
       | (None, w2) \<Rightarrow>
           (case Cache_Delete (cache s) (GenerateCacheKey L uid) w2 of
              (cerr, w3) \<Rightarrow>
                fst out = None \<and> same_stores w3 (snd out) \<and>
                levels_since w3 (snd out) =
                  (case cerr of Some err \<Rightarrow> [WarnLevel, InfoLevel] | None \<Rightarrow> [InfoLevel])))"
  by (simp add: SubscriberService_DeleteSubscriber_def world_steps
      case_prod_beta split: option.split)

text \<open>
  Claim C6. In each of the four operations of the read-through flow the result is fixed
  by the calls to the origin store alone. When a call to the origin store returns an
  error, the operation returns that very error, and after that call it only logs one
  entry of level error and ends its span: the heap, the repository and the cache are
  as the failing call left them. When the origin store succeeds, the operation returns
  the subscriber (or a nil error for \<^verbatim>\<open>DeleteSubscriber\<close>) whatever \<^verbatim>\<open>Cache.Set\<close> or
  \<^verbatim>\<open>Cache.Delete\<close> returns; an error of the cache only adds one entry of level
  warning before the closing entry of level info.
\<close>

theorem read_through_failure_semantics:
  "(let entry = NewSubscriber new_id t_new (req_Email req) (req_Name req)
        (InfoWithTracing ''Creating new subscriber''
           [(''email'', StringValue (req_Email req)),
            (''name'', StringValue (req_Name req))] w0);
        sub = fst entry;
        out = SubscriberService_CreateSubscriber L s new_id t_new t_set req w0
    in case Repo_Create (repo s) sub (snd entry) of
         (Some err, w3) \<Rightarrow>
           fst out = Inl err \<and> same_stores w3 (snd out) \<and>
           levels_since w3 (snd out) = [ErrorLevel]
       | (None, w3) \<Rightarrow>
           (case Cache_Set (cache s) t_set (GenerateCacheKey L (ID (heap w3 sub))) sub
                   (5 * Minute) w3 of
              (cerr, w4) \<Rightarrow>
                fst out = Inr sub \<and> same_stores w4 (snd out) \<and>
                levels_since w4 (snd out) =
                  (case cerr of Some err \<Rightarrow> [WarnLevel, InfoLevel] | None \<Rightarrow> [InfoLevel]))) \<and>
   (let out = SubscriberService_GetSubscriber L s t_get t_set uid w0
    in case Cache_Get (cache s) t_get (GenerateCacheKey L uid)
              (InfoWithTracing ''Retrieving subscriber''
                 [(''subscriber_id'', StringValue (uuid_String L uid))] w0) of
         (Inr sub, w2) \<Rightarrow> fst out = Inr sub \<and> same_stores w2 (snd out)
       | (Inl cache_err, w2) \<Rightarrow>
           (case Repo_GetByID (repo s) (uuid_String L uid)
                   (InfoWithTracing ''Subscriber not in cache, fetching from database''
                      [(''subscriber_id'', StringValue (uuid_String L uid))] w2) of
              (Inl err, w4) \<Rightarrow>
                fst out = Inl err \<and> same_stores w4 (snd out) \<and>
                levels_since w4 (snd out) = [ErrorLevel]
            | (Inr sub, w4) \<Rightarrow>
                (case Cache_Set (cache s) t_set (GenerateCacheKey L uid) sub (5 * Minute) w4 of
                   (cerr, w5) \<Rightarrow>
                     fst out = Inr sub \<and> same_stores w5 (snd out) \<and>
                     levels_since w5 (snd out) =
                       (case cerr of Some err \<Rightarrow> [WarnLevel, InfoLevel]
                        | None \<Rightarrow> [InfoLevel])))) \<and>
   (let out = SubscriberService_UpdateSubscriber L s t_mod t_upd uid req w0
    in case Repo_GetByID (repo s) (uuid_String L uid)
              (InfoWithTracing ''Updating subscriber''
                 [(''subscriber_id'', StringValue (uuid_String L uid)),
                  (''email'', StringValue (req_Email req)),
                  (''name'', StringValue (req_Name req))] w0) of
         (Inl err, w2) \<Rightarrow>
           fst out = Inl err \<and> same_stores w2 (snd out) \<and>
           levels_since w2 (snd out) = [ErrorLevel]
       | (Inr existing, w2) \<Rightarrow>
           (case Repo_Update (repo s) t_upd existing
                   (w2\<lparr>heap := (heap w2)(existing :=
                          (heap w2 existing)\<lparr>Email := req_Email req, Name := req_Name req,
                                              UpdatedAt := t_mod\<rparr>)\<rparr>) of
              (Some err, w4) \<Rightarrow>
                fst out = Inl err \<and> same_stores w4 (snd out) \<and>
                levels_since w4 (snd out) = [ErrorLevel]
            | (None, w4) \<Rightarrow>
                (case Cache_Delete (cache s) (GenerateCacheKey L uid) w4 of
                   (cerr, w5) \<Rightarrow>
                     fst out = Inr existing \<and> same_stores w5 (snd out) \<and>
                     levels_since w5 (snd out) =
                       (case cerr of Some err \<Rightarrow> [WarnLevel, InfoLevel]
                        | None \<Rightarrow> [InfoLevel])))) \<and>
   (let out = SubscriberService_DeleteSubscriber L s uid w0
    in case Repo_Delete (repo s) (uuid_String L uid)
              (InfoWithTracing ''Deleting subscriber''
                 [(''subscriber_id'', StringValue (uuid_String L uid))] w0) of
         (Some err, w2) \<Rightarrow>
           fst out = Some err \<and> same_stores w2 (snd out) \<and>
           levels_since w2 (snd out) = [ErrorLevel]
       | (None, w2) \<Rightarrow>
           (case Cache_Delete (cache s) (GenerateCacheKey L uid) w2 of
              (cerr, w3) \<Rightarrow>
                fst out = None \<and> same_stores w3 (snd out) \<and>
                levels_since w3 (snd out) =
                  (case cerr of Some err \<Rightarrow> [WarnLevel, InfoLevel] | None \<Rightarrow> [InfoLevel])))"
  by (intro conjI Create_failure_semantics Get_failure_semantics Update_failure_semantics
      Delete_failure_semantics)

theorem read_through_failure_semantics_witness:
  "fst (SubscriberService_CreateSubscriber example_golib example_service 1 0 0
          example_request NewTestApp) = Inr 0 \<and>
   map level (logged (snd (SubscriberService_CreateSubscriber example_golib example_service
          1 0 0 example_request NewTestApp))) = [InfoLevel, WarnLevel, InfoLevel] \<and>
   fst (SubscriberService_DeleteSubscriber example_golib example_service 2 NewTestApp)
     = Some (Error ''subscriber with ID 00000000-0000-0000-0000-000000000002 not found'')"
  using read_through_failure_semantics
    [where L = example_golib and s = example_service and new_id = 1 and t_new = 0
       and t_set = 0 and req = example_request and ?w0.0 = NewTestApp and uid = 2]
  by (simp add: Let_def case_prod_beta NewSubscriber_def example_service_def
      InMemorySubscriberRepository_impl_def InMemorySubscriberRepository_Create_def
      InMemorySubscriberRepository_Delete_def InMemorySubscriberRepository_GetByID_def
      unavailable_Cache_def InfoWithTracing_def example_golib_def End_def
      TestSpanRecorder_ExportSpans_def levels_since_def same_stores_def
      NewTestApp_def NewInMemorySubscriberRepository_def WarnWithTracing_def
      SubscriberService_CreateSubscriber_def)

section \<open>The read-through flow over the in-memory cache and origin store\<close>

lemmas in_memory_service =
  NewSubscriberService_def InMemoryCache_impl_def InMemorySubscriberRepository_impl_def
  End_def TestSpanRecorder_ExportSpans_def InfoWithTracing_def WarnWithTracing_def
  ErrorWithTracing_def Start_def SetAttributes_def RecordError_def Let_def

lemma roundtrip_inj:
  assumes "\<forall>u. uuid_Parse L (uuid_String L u) = Inr u"
  shows "uuid_String L u = uuid_String L v \<longleftrightarrow> u = v"
  by (metis assms sum.inject(2))

lemma GenerateCacheKey_inj:
  assumes "\<forall>u. uuid_Parse L (uuid_String L u) = Inr u"
  shows "GenerateCacheKey L u = GenerateCacheKey L v \<longleftrightarrow> u = v"
  by (simp add: GenerateCacheKey_def roundtrip_inj [OF assms])

lemma stored_under_own_ID_iff:
  "stored_under_own_ID w \<longleftrightarrow>
     (\<forall>u p. fmlookup (subscribers (repo_state w)) u = Some p
        \<longrightarrow> ID (heap w p) = u \<and> p < next_ref w)"
  by (simp add: stored_under_own_ID_def fmpred_iff)

text \<open>What each request for another identifier leaves of the origin store.\<close>

lemma step_keeps_origin:
  assumes rt: "\<forall>u. uuid_Parse L (uuid_String L u) = Inr u"
      and other: "other_traffic uid t r"
      and wf: "stored_under_own_ID w"
      and held: "fmlookup (subscribers (repo_state w)) uid = Some sub"
  shows "stored_under_own_ID (step L r w) \<and>
         fmlookup (subscribers (repo_state (step L r w))) uid = Some sub"
proof (cases r)
  case (CreateRequest new_id t_new t_set req)
  with other wf held show ?thesis
    by (auto simp: stored_under_own_ID_iff SubscriberService_CreateSubscriber_def
        in_memory_service NewSubscriber_def InMemorySubscriberRepository_Create_def
        InMemoryCache_Set_def less_Suc_eq split: if_splits)
next
  case (GetRequest t_get t_set uid')
  with other wf held show ?thesis
    by (auto simp: stored_under_own_ID_iff SubscriberService_GetSubscriber_def
        in_memory_service InMemorySubscriberRepository_GetByID_def InMemoryCache_Get_def
        InMemoryCache_Set_def rt split: option.splits if_splits)
next
  case GetAllRequest
  with wf held show ?thesis
    by (auto simp: stored_under_own_ID_iff SubscriberService_GetAllSubscribers_def
        in_memory_service InMemorySubscriberRepository_GetAll_def)
next
  case (UpdateRequest t_mod t_upd uid' req)
  with other wf held show ?thesis
    by (auto simp: stored_under_own_ID_iff SubscriberService_UpdateSubscriber_def
        in_memory_service InMemorySubscriberRepository_GetByID_def
        InMemorySubscriberRepository_Update_def InMemoryCache_Delete_def rt
        split: option.splits if_splits)
next
  case (DeleteRequest uid')
  with other wf held show ?thesis
    by (auto simp: stored_under_own_ID_iff SubscriberService_DeleteSubscriber_def
        in_memory_service InMemorySubscriberRepository_Delete_def
        InMemoryCache_Delete_def rt split: option.splits if_splits)
next
  case (ReaperTick now)
  with wf held show ?thesis
    by (auto simp: stored_under_own_ID_iff)
qed

lemma step_cache_entry:
  assumes rt: "\<forall>u. uuid_Parse L (uuid_String L u) = Inr u"
      and other: "other_traffic uid t r"
  shows "fmlookup (items (cache_state (step L r w))) (GenerateCacheKey L uid) =
           (case fmlookup (items (cache_state w)) (GenerateCacheKey L uid) of
              None \<Rightarrow> None
            | Some item \<Rightarrow>
                (case r of
                   ReaperTick now \<Rightarrow> if expireAt item < now then None else Some item
                 | _ \<Rightarrow> Some item))"
proof (cases r)
  case (CreateRequest new_id t_new t_set req)
  with other show ?thesis
    by (auto simp: SubscriberService_CreateSubscriber_def
        in_memory_service NewSubscriber_def InMemorySubscriberRepository_Create_def
        InMemoryCache_Set_def GenerateCacheKey_inj [OF rt] split: option.splits)
next
  case (GetRequest t_get t_set uid')
  with other show ?thesis
    by (auto simp: SubscriberService_GetSubscriber_def
        in_memory_service InMemorySubscriberRepository_GetByID_def InMemoryCache_Get_def
        InMemoryCache_Set_def rt GenerateCacheKey_inj [OF rt] split: option.splits)
next
  case GetAllRequest
  then show ?thesis
    by (auto simp: SubscriberService_GetAllSubscribers_def
        in_memory_service InMemorySubscriberRepository_GetAll_def split: option.splits)
next
  case (UpdateRequest t_mod t_upd uid' req)
  with other show ?thesis
    by (auto simp: SubscriberService_UpdateSubscriber_def
        in_memory_service InMemorySubscriberRepository_GetByID_def
        InMemorySubscriberRepository_Update_def InMemoryCache_Delete_def rt
        GenerateCacheKey_inj [OF rt] split: option.splits)
next
  case (DeleteRequest uid')
  with other show ?thesis
    by (auto simp: SubscriberService_DeleteSubscriber_def
        in_memory_service InMemorySubscriberRepository_Delete_def
        InMemoryCache_Delete_def rt GenerateCacheKey_inj [OF rt] split: option.splits)
next
  case (ReaperTick now)
  then show ?thesis
    by (simp add: cleanup_tick_lookup split: option.split)
qed

lemma run_keeps_origin:
  assumes rt: "\<forall>u. uuid_Parse L (uuid_String L u) = Inr u"
  shows "list_all (other_traffic uid t) rs \<Longrightarrow> stored_under_own_ID w \<Longrightarrow>
         fmlookup (subscribers (repo_state w)) uid = Some sub \<Longrightarrow>
         stored_under_own_ID (run L rs w) \<and>
         fmlookup (subscribers (repo_state (run L rs w))) uid = Some sub"
proof (induction rs arbitrary: w)
  case Nil
  then show ?case by simp
next
  case (Cons r rs)
  from Cons.prems have "other_traffic uid t r" by simp
  from step_keeps_origin [OF rt this Cons.prems(2,3)] Cons.prems(1)
  show ?case by (simp add: Cons.IH)
qed

lemma run_entry_kept:
  assumes rt: "\<forall>u. uuid_Parse L (uuid_String L u) = Inr u"
  shows "list_all (other_traffic uid t) rs \<Longrightarrow>
         fmlookup (items (cache_state w)) (GenerateCacheKey L uid) = Some item \<Longrightarrow>
         \<not> expireAt item < t \<Longrightarrow>
         fmlookup (items (cache_state (run L rs w))) (GenerateCacheKey L uid) = Some item"
proof (induction rs arbitrary: w)
  case Nil
  then show ?case by simp
next
  case (Cons r rs)
  from Cons.prems have other: "other_traffic uid t r" by simp
  have "fmlookup (items (cache_state (step L r w))) (GenerateCacheKey L uid) = Some item"
    using step_cache_entry [OF rt other, of w] other Cons.prems(2,3)
    by (cases r) (simp_all del: step.simps)
  with Cons.prems show ?case by (simp add: Cons.IH)
qed

lemma run_entry_same_or_gone:
  assumes rt: "\<forall>u. uuid_Parse L (uuid_String L u) = Inr u"
  shows "list_all (other_traffic uid t) rs \<Longrightarrow>
         fmlookup (items (cache_state (run L rs w))) (GenerateCacheKey L uid) = None \<or>
         fmlookup (items (cache_state (run L rs w))) (GenerateCacheKey L uid)
           = fmlookup (items (cache_state w)) (GenerateCacheKey L uid)"
proof (induction rs arbitrary: w)
  case Nil
  then show ?case by simp
next
  case (Cons r rs)
  from Cons.prems have other: "other_traffic uid t r" by simp
  have "fmlookup (items (cache_state (step L r w))) (GenerateCacheKey L uid) = None \<or>
        fmlookup (items (cache_state (step L r w))) (GenerateCacheKey L uid)
          = fmlookup (items (cache_state w)) (GenerateCacheKey L uid)"
    using step_cache_entry [OF rt other, of w]
    by (cases r) (simp_all del: step.simps split: option.splits)
  moreover from Cons.prems have "list_all (other_traffic uid t) rs" by simp
  from Cons.IH [OF this, of "step L r w"]
  have "fmlookup (items (cache_state (run L rs (step L r w)))) (GenerateCacheKey L uid) = None \<or>
        fmlookup (items (cache_state (run L rs (step L r w)))) (GenerateCacheKey L uid)
          = fmlookup (items (cache_state (step L r w))) (GenerateCacheKey L uid)" .
  ultimately show ?case by auto
qed

lemma stored_under_own_ID_cong:
  "heap w' = heap w \<Longrightarrow> next_ref w' = next_ref w \<Longrightarrow> repo_state w' = repo_state w \<Longrightarrow>
   stored_under_own_ID w' = stored_under_own_ID w"
  by (simp add: stored_under_own_ID_def)

lemma CreateSubscriber_in_memory_post:
  assumes "SubscriberService_CreateSubscriber L (NewSubscriberService L) uid t_new t0 req w
             = (Inr sub, w1)"
      and "stored_under_own_ID w"
  shows "fmlookup (items (cache_state w1)) (GenerateCacheKey L uid)
           = Some \<lparr>subscriber = sub, expireAt = t0 + 5 * Minute\<rparr> \<and>
         fmlookup (subscribers (repo_state w1)) uid = Some sub \<and>
         stored_under_own_ID w1"
proof -
  from assms(2) have own:
    "\<And>u p. fmlookup (subscribers (repo_state w)) u = Some p
       \<Longrightarrow> ID (heap w p) = u \<and> p < next_ref w"
    by (simp add: stored_under_own_ID_iff)
  then have fresh: "\<And>u. fmlookup (subscribers (repo_state w)) u \<noteq> Some (next_ref w)"
    by fastforce
  from assms(1) have new: "fmlookup (subscribers (repo_state w)) uid = None"
    "sub = next_ref w"
    "w1 = snd (SubscriberService_CreateSubscriber L (NewSubscriberService L) uid t_new t0
                 req w)"
    by (auto simp: SubscriberService_CreateSubscriber_def in_memory_service NewSubscriber_def
        InMemorySubscriberRepository_Create_def InMemoryCache_Set_def split: if_splits)
  from new(1) have w1: "heap w1 = (heap w)(next_ref w :=
        \<lparr>ID = uid, Email = req_Email req, Name = req_Name req,
         CreatedAt = t_new, UpdatedAt = t_new\<rparr>)"
    "next_ref w1 = Suc (next_ref w)"
    "subscribers (repo_state w1) = fmupd uid (next_ref w) (subscribers (repo_state w))"
    "fmlookup (items (cache_state w1)) (GenerateCacheKey L uid)
       = Some \<lparr>subscriber = next_ref w, expireAt = t0 + 5 * Minute\<rparr>"
    by (simp_all add: new(3) SubscriberService_CreateSubscriber_def in_memory_service
        NewSubscriber_def InMemorySubscriberRepository_Create_def InMemoryCache_Set_def)
  have "stored_under_own_ID w1"
    unfolding stored_under_own_ID_iff w1
    using own fresh by (auto simp: less_Suc_eq)
  with w1 new(2) show ?thesis by simp
qed

lemma GetSubscriber_in_memory_hit_stores:
  assumes "fmlookup (items (cache_state w)) (GenerateCacheKey L uid) = Some item"
      and "\<not> expireAt item < t_get"
  shows "cache_state (snd (SubscriberService_GetSubscriber L (NewSubscriberService L)
            t_get t_set uid w)) = cache_state w \<and>
         repo_state (snd (SubscriberService_GetSubscriber L (NewSubscriberService L)
            t_get t_set uid w)) = repo_state w \<and>
         heap (snd (SubscriberService_GetSubscriber L (NewSubscriberService L)
            t_get t_set uid w)) = heap w \<and>
         next_ref (snd (SubscriberService_GetSubscriber L (NewSubscriberService L)
            t_get t_set uid w)) = next_ref w"
  using assms
  by (simp add: SubscriberService_GetSubscriber_def in_memory_service InMemoryCache_Get_def)

lemma GetSubscriber_in_memory_miss_stores:
  assumes "uuid_Parse L (uuid_String L uid) = Inr uid"
      and "fst (InMemoryCache_Get L (heap w) (cache_state w) t_get (GenerateCacheKey L uid))
             = Inl e"
      and "fmlookup (subscribers (repo_state w)) uid = Some sub"
  shows "fmlookup (items (cache_state (snd (SubscriberService_GetSubscriber L
            (NewSubscriberService L) t_get t_set uid w)))) (GenerateCacheKey L uid)
           = Some \<lparr>subscriber = sub, expireAt = t_set + 5 * Minute\<rparr> \<and>
         repo_state (snd (SubscriberService_GetSubscriber L (NewSubscriberService L)
            t_get t_set uid w)) = repo_state w \<and>
         heap (snd (SubscriberService_GetSubscriber L (NewSubscriberService L)
            t_get t_set uid w)) = heap w \<and>
         next_ref (snd (SubscriberService_GetSubscriber L (NewSubscriberService L)
            t_get t_set uid w)) = next_ref w"
  using assms
  by (auto simp: SubscriberService_GetSubscriber_def in_memory_service InMemoryCache_Get_def
      InMemoryCache_Set_def InMemorySubscriberRepository_GetByID_def
      split: option.splits if_splits)

lemma GetSubscriber_in_memory_hit:
  assumes "fmlookup (items (cache_state w)) (GenerateCacheKey L uid) = Some item"
      and "\<not> expireAt item < t2"
  shows "fst (SubscriberService_GetSubscriber L (NewSubscriberService L) t2 t2' uid
                (ClearSpans w)) = Inr (subscriber item) \<and>
         TestSpanRecorder_GetSpansByOperation
           (recorder (snd (SubscriberService_GetSubscriber L (NewSubscriberService L)
              t2 t2' uid (ClearSpans w)))) ''database.read'' = [] \<and>
         (\<exists>span \<in> set (TestSpanRecorder_GetSpansByOperation
              (recorder (snd (SubscriberService_GetSubscriber L (NewSubscriberService L)
                 t2 t2' uid (ClearSpans w)))) ''cache.read'').
            (''cache.hit'', BoolValue True) \<in> set (attributes span))"
  using assms
  by (simp add: SubscriberService_GetSubscriber_def in_memory_service ClearSpans_def
      TestSpanRecorder_Clear_def InMemoryCache_Get_def
      TestSpanRecorder_GetSpansByOperation_def)

lemma GetSubscriber_in_memory_miss:
  assumes "uuid_Parse L (uuid_String L uid) = Inr uid"
      and "fst (InMemoryCache_Get L (heap w) (cache_state w) t_get (GenerateCacheKey L uid))
             = Inl e"
  shows "(let out = SubscriberService_GetSubscriber L (NewSubscriberService L) t_get t_set
                      uid (ClearSpans w)
          in fst out
               = fst (InMemorySubscriberRepository_GetByID L (repo_state w)
                        (uuid_String L uid)) \<and>
             (case fmlookup (subscribers (repo_state w)) uid of
                None \<Rightarrow>
                  fst out = Inl (Error (''subscriber with ID '' @ uuid_String L uid
                                         @ '' not found'')) \<and>
                  map name (spans (recorder (snd out)))
                    = [''cache.get'', ''subscriber.repository.get_by_id'',
                       ''subscriber.service.get''] \<and>
                  cache_state (snd out) = cache_state w
              | Some sub \<Rightarrow>
                  fst out = Inr sub \<and>
                  map name (spans (recorder (snd out)))
                    = [''cache.get'', ''subscriber.repository.get_by_id'', ''cache.set'',
                       ''subscriber.service.get''] \<and>
                  fmlookup (items (cache_state (snd out))) (GenerateCacheKey L uid)
                    = Some \<lparr>subscriber = sub, expireAt = t_set + 5 * Minute\<rparr>))"
  using assms
  by (auto simp: SubscriberService_GetSubscriber_def in_memory_service ClearSpans_def
      TestSpanRecorder_Clear_def InMemoryCache_Get_def InMemoryCache_Set_def
      InMemorySubscriberRepository_GetByID_def split: option.splits if_splits)

lemma GetSubscriber_in_memory_miss_database_read:
  assumes "uuid_Parse L (uuid_String L uid) = Inr uid"
      and "fst (InMemoryCache_Get L (heap w) (cache_state w) t_get (GenerateCacheKey L uid))
             = Inl e"
  shows "map name (TestSpanRecorder_GetSpansByOperation
           (recorder (snd (SubscriberService_GetSubscriber L (NewSubscriberService L)
              t_get t_set uid (ClearSpans w)))) ''database.read'')
         = [''subscriber.repository.get_by_id'']"
  using assms
  by (auto simp: SubscriberService_GetSubscriber_def in_memory_service ClearSpans_def
      TestSpanRecorder_Clear_def InMemoryCache_Get_def InMemoryCache_Set_def
      InMemorySubscriberRepository_GetByID_def TestSpanRecorder_GetSpansByOperation_def
      split: option.splits if_splits)

text \<open>The entry of the key and the origin's record when the second read begins.\<close>

lemma before_second_read:
  assumes rt: "\<forall>u. uuid_Parse L (uuid_String L u) = Inr u"
      and wf: "stored_under_own_ID w"
      and created: "SubscriberService_CreateSubscriber L (NewSubscriberService L) uid t_new t0
                      req w = (Inr sub, w1)"
      and rs1: "list_all (other_traffic uid t1) rs1"
      and rs2: "list_all (other_traffic uid t2) rs2"
      and soon: "t2 \<le> (if t1 \<le> t0 + 5 * Minute then t0 else t1') + 5 * Minute"
  shows "\<exists>item. fmlookup (items (cache_state
            (run L rs2 (snd (SubscriberService_GetSubscriber L (NewSubscriberService L)
               t1 t1' uid (run L rs1 w1)))))) (GenerateCacheKey L uid) = Some item \<and>
           subscriber item = sub \<and> \<not> expireAt item < t2"
proof -
  define wa where "wa = run L rs1 w1"
  define w2 where
    "w2 = snd (SubscriberService_GetSubscriber L (NewSubscriberService L) t1 t1' uid wa)"
  define item where
    "item = \<lparr>subscriber = sub,
             expireAt = (if t1 \<le> t0 + 5 * Minute then t0 + 5 * Minute
                         else t1' + 5 * Minute)\<rparr>"
  from CreateSubscriber_in_memory_post [OF created wf]
  have c1: "fmlookup (items (cache_state w1)) (GenerateCacheKey L uid)
              = Some \<lparr>subscriber = sub, expireAt = t0 + 5 * Minute\<rparr>"
    and o1: "fmlookup (subscribers (repo_state w1)) uid = Some sub"
    and wf1: "stored_under_own_ID w1"
    by simp_all
  from run_keeps_origin [OF rt rs1 wf1 o1]
  have oa: "fmlookup (subscribers (repo_state wa)) uid = Some sub"
    by (simp add: wa_def)
  have uid_rt: "uuid_Parse L (uuid_String L uid) = Inr uid"
    using rt by simp
  have c2: "fmlookup (items (cache_state w2)) (GenerateCacheKey L uid) = Some item"
  proof (cases "t1 \<le> t0 + 5 * Minute")
    case True
    then have live: "\<not> expireAt \<lparr>subscriber = sub, expireAt = t0 + 5 * Minute\<rparr> < t1"
      by simp
    from run_entry_kept [OF rt rs1 c1 live]
    have ca: "fmlookup (items (cache_state wa)) (GenerateCacheKey L uid)
                = Some \<lparr>subscriber = sub, expireAt = t0 + 5 * Minute\<rparr>"
      by (simp add: wa_def)
    from GetSubscriber_in_memory_hit_stores [OF ca live, of t1'] ca True
    show ?thesis by (simp add: w2_def item_def)
  next
    case False
    from run_entry_same_or_gone [OF rt rs1, of w1] c1
    have "fmlookup (items (cache_state wa)) (GenerateCacheKey L uid) = None \<or>
          fmlookup (items (cache_state wa)) (GenerateCacheKey L uid)
            = Some \<lparr>subscriber = sub, expireAt = t0 + 5 * Minute\<rparr>"
      by (simp add: wa_def)
    with False have "\<exists>e. fst (InMemoryCache_Get L (heap wa) (cache_state wa) t1
                             (GenerateCacheKey L uid)) = Inl e"
      by (auto simp: InMemoryCache_Get_def Let_def)
    then obtain e where "fst (InMemoryCache_Get L (heap wa) (cache_state wa) t1
                             (GenerateCacheKey L uid)) = Inl e" ..
    from GetSubscriber_in_memory_miss_stores [OF uid_rt this oa, of t1'] False
    show ?thesis by (simp add: w2_def item_def)
  qed
  from soon have live2: "\<not> expireAt item < t2"
    by (simp add: item_def split: if_splits)
  from run_entry_kept [OF rt rs2 c2 live2] live2
  show ?thesis
    by (auto simp: w2_def wa_def item_def)
qed

lemma unary_golib_roundtrip:
  "\<forall>u. uuid_Parse unary_golib (uuid_String unary_golib u) = Inr u"
  by (simp add: unary_golib_def list_all_iff)

lemma NewTestApp_stored_under_own_ID: "stored_under_own_ID NewTestApp"
  by (simp add: stored_under_own_ID_def NewTestApp_def NewInMemorySubscriberRepository_def)

lemma unary_created:
  "SubscriberService_CreateSubscriber unary_golib (NewSubscriberService unary_golib)
     1 0 0 example_request NewTestApp
   = (Inr 0, snd (SubscriberService_CreateSubscriber unary_golib
        (NewSubscriberService unary_golib) 1 0 0 example_request NewTestApp))"
  by (simp add: prod_eq_iff SubscriberService_CreateSubscriber_def in_memory_service
      NewSubscriber_def NewTestApp_def NewInMemorySubscriberRepository_def
      InMemorySubscriberRepository_Create_def InMemoryCache_Set_def case_prod_beta)

lemma example_created:
  "SubscriberService_CreateSubscriber example_golib (NewSubscriberService example_golib)
     1 0 0 example_request NewTestApp
   = (Inr 0, snd (SubscriberService_CreateSubscriber example_golib
        (NewSubscriberService example_golib) 1 0 0 example_request NewTestApp))"
  by (simp add: prod_eq_iff SubscriberService_CreateSubscriber_def in_memory_service
      NewSubscriber_def NewTestApp_def NewInMemorySubscriberRepository_def
      InMemorySubscriberRepository_Create_def InMemoryCache_Set_def case_prod_beta)

lemma example_golib_roundtrip: "uuid_Parse example_golib (uuid_String example_golib 1) = Inr 1"
  "uuid_Parse example_golib (uuid_String example_golib 2) = Inr 2"
  by (simp_all add: example_golib_def)

text \<open>
  Claim C1, amended. Let the library parse the text of every identifier back to it, and
  let every subscriber of the origin store be stored under its own identifier. Suppose
  the create flow stored a subscriber under the identifier and the subscriber is then
  read twice, where before and between the two reads only requests for other
  identifiers, requests for the list of all subscribers and ticks of the reaper run,
  no tick later than the read that follows it, and the cache lookup of the second read comes
  no later than five minutes after the entry was last written (by the create flow when
  the lookup of the first read came within five minutes of it, by the first read
  otherwise). Then the second read returns the subscriber and produces no span with
  operation \<^verbatim>\<open>database.read\<close> and a span with operation \<^verbatim>\<open>cache.read\<close> and
  \<^verbatim>\<open>cache.hit\<close> true. And any read where the cache does not return the value returns
  what \<^verbatim>\<open>GetByID\<close> of the origin store returns: when the origin store holds the
  identifier, the subscriber, after the spans of \<^verbatim>\<open>Cache.Get\<close>, \<^verbatim>\<open>GetByID\<close>,
  \<^verbatim>\<open>Cache.Set\<close> and the service in this order, with the entry written for five
  minutes; when it does not, the error of \<^verbatim>\<open>GetByID\<close>, after the spans of
  \<^verbatim>\<open>Cache.Get\<close>, \<^verbatim>\<open>GetByID\<close> and the service, with no \<^verbatim>\<open>Cache.Set\<close> and the cache as
  it was.
\<close>

theorem read_through_cache_hit_isolation:
  assumes rt: "\<forall>u. uuid_Parse L (uuid_String L u) = Inr u"
      and wf: "stored_under_own_ID w"
  shows
   "(SubscriberService_CreateSubscriber L (NewSubscriberService L) uid t_new t0 req w
       = (Inr sub, w1) \<and>
     list_all (other_traffic uid t1) rs1 \<and>
     list_all (other_traffic uid t2) rs2 \<and>
     t2 \<le> (if t1 \<le> t0 + 5 * Minute then t0 else t1') + 5 * Minute \<longrightarrow>
     (let w2 = snd (SubscriberService_GetSubscriber L (NewSubscriberService L) t1 t1' uid
                      (run L rs1 w1));
          out = SubscriberService_GetSubscriber L (NewSubscriberService L) t2 t2' uid
                  (ClearSpans (run L rs2 w2))
      in fst out = Inr sub \<and>
         TestSpanRecorder_GetSpansByOperation (recorder (snd out)) ''database.read'' = [] \<and>
         (\<exists>span \<in> set (TestSpanRecorder_GetSpansByOperation (recorder (snd out))
                          ''cache.read'').
            (''cache.hit'', BoolValue True) \<in> set (attributes span)))) \<and>
    (fst (InMemoryCache_Get L (heap v) (cache_state v) t_get (GenerateCacheKey L uid)) = Inl e
     \<longrightarrow>
     (let out = SubscriberService_GetSubscriber L (NewSubscriberService L) t_get t_set
                  uid (ClearSpans v)
      in fst out
           = fst (InMemorySubscriberRepository_GetByID L (repo_state v) (uuid_String L uid)) \<and>
         (case fmlookup (subscribers (repo_state v)) uid of
            None \<Rightarrow>
              fst out = Inl (Error (''subscriber with ID '' @ uuid_String L uid
                                     @ '' not found'')) \<and>
              map name (spans (recorder (snd out)))
                = [''cache.get'', ''subscriber.repository.get_by_id'',
                   ''subscriber.service.get''] \<and>
              cache_state (snd out) = cache_state v
          | Some found \<Rightarrow>
              fst out = Inr found \<and>
              map name (spans (recorder (snd out)))
                = [''cache.get'', ''subscriber.repository.get_by_id'', ''cache.set'',
                   ''subscriber.service.get''] \<and>
              fmlookup (items (cache_state (snd out))) (GenerateCacheKey L uid)
                = Some \<lparr>subscriber = found, expireAt = t_set + 5 * Minute\<rparr>)))"
proof (intro conjI impI)
  assume run: "SubscriberService_CreateSubscriber L (NewSubscriberService L) uid t_new t0 req w
       = (Inr sub, w1) \<and>
     list_all (other_traffic uid t1) rs1 \<and>
     list_all (other_traffic uid t2) rs2 \<and>
     t2 \<le> (if t1 \<le> t0 + 5 * Minute then t0 else t1') + 5 * Minute"
  define wb where
    "wb = run L rs2 (snd (SubscriberService_GetSubscriber L (NewSubscriberService L)
            t1 t1' uid (run L rs1 w1)))"
  from run before_second_read [OF rt wf, of uid t_new t0 req sub w1 t1 rs1 t2 rs2 t1']
  obtain item where cached:
      "fmlookup (items (cache_state wb)) (GenerateCacheKey L uid) = Some item"
    and sub: "subscriber item = sub" and live: "\<not> expireAt item < t2"
    unfolding wb_def by blast
  from GetSubscriber_in_memory_hit [OF cached live, of t2'] sub
  show "let w2 = snd (SubscriberService_GetSubscriber L (NewSubscriberService L) t1 t1' uid
                      (run L rs1 w1));
          out = SubscriberService_GetSubscriber L (NewSubscriberService L) t2 t2' uid
                  (ClearSpans (run L rs2 w2))
      in fst out = Inr sub \<and>
         TestSpanRecorder_GetSpansByOperation (recorder (snd out)) ''database.read'' = [] \<and>
         (\<exists>span \<in> set (TestSpanRecorder_GetSpansByOperation (recorder (snd out))
                          ''cache.read'').
            (''cache.hit'', BoolValue True) \<in> set (attributes span))"
    by (simp add: Let_def wb_def)
next
  assume "fst (InMemoryCache_Get L (heap v) (cache_state v) t_get (GenerateCacheKey L uid))
            = Inl e"
  moreover from rt have "uuid_Parse L (uuid_String L uid) = Inr uid" by simp
  ultimately show "let out = SubscriberService_GetSubscriber L (NewSubscriberService L)
                  t_get t_set uid (ClearSpans v)
      in fst out
           = fst (InMemorySubscriberRepository_GetByID L (repo_state v) (uuid_String L uid)) \<and>
         (case fmlookup (subscribers (repo_state v)) uid of
            None \<Rightarrow>
              fst out = Inl (Error (''subscriber with ID '' @ uuid_String L uid
                                     @ '' not found'')) \<and>
              map name (spans (recorder (snd out)))
                = [''cache.get'', ''subscriber.repository.get_by_id'',
                   ''subscriber.service.get''] \<and>
              cache_state (snd out) = cache_state v
          | Some found \<Rightarrow>
              fst out = Inr found \<and>
              map name (spans (recorder (snd out)))
                = [''cache.get'', ''subscriber.repository.get_by_id'', ''cache.set'',
                   ''subscriber.service.get''] \<and>
              fmlookup (items (cache_state (snd out))) (GenerateCacheKey L uid)
                = Some \<lparr>subscriber = found, expireAt = t_set + 5 * Minute\<rparr>)"
    using GetSubscriber_in_memory_miss by blast
qed

theorem read_through_cache_hit_isolation_witness:
  "(let w1 = snd (SubscriberService_CreateSubscriber unary_golib
                    (NewSubscriberService unary_golib) 1 0 0 example_request NewTestApp);
        w2 = snd (SubscriberService_GetSubscriber unary_golib
                    (NewSubscriberService unary_golib) 1 1 1
                    (run unary_golib [ReaperTick 1, DeleteRequest 2] w1));
        out = SubscriberService_GetSubscriber unary_golib
                (NewSubscriberService unary_golib) 5 5 1
                (ClearSpans (run unary_golib
                   [GetRequest 2 2 2, UpdateRequest 3 3 2 example_request, ReaperTick 4] w2))
    in fst out = Inr 0 \<and>
       TestSpanRecorder_GetSpansByOperation (recorder (snd out)) ''database.read'' = [] \<and>
       (\<exists>span \<in> set (TestSpanRecorder_GetSpansByOperation (recorder (snd out))
                        ''cache.read'').
          (''cache.hit'', BoolValue True) \<in> set (attributes span)))"
  using read_through_cache_hit_isolation
    [where L = unary_golib and w = NewTestApp and uid = 1 and t_new = 0 and ?t0.0 = 0
       and req = example_request and sub = 0
       and ?w1.0 = "snd (SubscriberService_CreateSubscriber unary_golib
                    (NewSubscriberService unary_golib) 1 0 0 example_request NewTestApp)"
       and ?t1.0 = 1 and t1' = 1 and ?t2.0 = 5 and t2' = 5
       and ?rs1.0 = "[ReaperTick 1, DeleteRequest 2]"
       and ?rs2.0 = "[GetRequest 2 2 2, UpdateRequest 3 3 2 example_request, ReaperTick 4]",
     OF unary_golib_roundtrip NewTestApp_stored_under_own_ID, THEN conjunct1]
    unary_created
  by (simp add: Let_def Minute_def del: run.simps step.simps)

text \<open>
  A second read one nanosecond after the five minutes goes to the origin store, and a
  read of an identifier the origin store does not hold never calls \<^verbatim>\<open>Cache.Set\<close>.
\<close>

theorem read_through_cache_hit_isolation_counterexample:
  "map name (TestSpanRecorder_GetSpansByOperation
      (recorder (snd (SubscriberService_GetSubscriber example_golib
         (NewSubscriberService example_golib) 300000000001 300000000001 1
         (ClearSpans (snd (SubscriberService_GetSubscriber example_golib
            (NewSubscriberService example_golib) 1 1 1
            (snd (SubscriberService_CreateSubscriber example_golib
               (NewSubscriberService example_golib) 1 0 0 example_request
               NewTestApp)))))))) ''database.read'')
     = [''subscriber.repository.get_by_id''] \<and>
   map name (spans (recorder (snd (SubscriberService_GetSubscriber example_golib
      (NewSubscriberService example_golib) 0 0 2 (ClearSpans NewTestApp)))))
     = [''cache.get'', ''subscriber.repository.get_by_id'', ''subscriber.service.get'']"
proof
  define w1 where "w1 = snd (SubscriberService_CreateSubscriber example_golib
     (NewSubscriberService example_golib) 1 0 0 example_request NewTestApp)"
  define w2 where "w2 = snd (SubscriberService_GetSubscriber example_golib
     (NewSubscriberService example_golib) 1 1 1 w1)"
  have created:
    "fmlookup (items (cache_state w1)) (GenerateCacheKey example_golib 1)
       = Some \<lparr>subscriber = 0, expireAt = 0 + 5 * Minute\<rparr>"
    using CreateSubscriber_in_memory_post [OF example_created NewTestApp_stored_under_own_ID]
    by (simp add: w1_def)
  have live: "\<not> expireAt \<lparr>subscriber = 0, expireAt = 0 + 5 * Minute\<rparr> < 1"
    by (simp add: Minute_def)
  have "fmlookup (items (cache_state w2)) (GenerateCacheKey example_golib 1)
          = Some \<lparr>subscriber = 0, expireAt = 300000000000\<rparr>"
    using GetSubscriber_in_memory_hit_stores [OF created live, of 1] created
    by (simp add: w2_def Minute_def)
  then have "fst (InMemoryCache_Get example_golib (heap w2) (cache_state w2) 300000000001
               (GenerateCacheKey example_golib 1)) = Inl (Error ''key expired in cache'')"
    by (simp add: InMemoryCache_Get_def Let_def)
  from GetSubscriber_in_memory_miss_database_read [OF example_golib_roundtrip(1) this]
  show "map name (TestSpanRecorder_GetSpansByOperation
      (recorder (snd (SubscriberService_GetSubscriber example_golib
         (NewSubscriberService example_golib) 300000000001 300000000001 1
         (ClearSpans (snd (SubscriberService_GetSubscriber example_golib
            (NewSubscriberService example_golib) 1 1 1
            (snd (SubscriberService_CreateSubscriber example_golib
               (NewSubscriberService example_golib) 1 0 0 example_request
               NewTestApp)))))))) ''database.read'')
     = [''subscriber.repository.get_by_id'']"
    by (simp add: w2_def w1_def)
next
  have "fst (InMemoryCache_Get example_golib (heap NewTestApp) (cache_state NewTestApp) 0
          (GenerateCacheKey example_golib 2)) = Inl (Error ''key not found in cache'')"
    by (simp add: InMemoryCache_Get_def NewTestApp_def NewInMemoryCache_def Let_def)
  from GetSubscriber_in_memory_miss [OF example_golib_roundtrip(2) this, of 0]
  show "map name (spans (recorder (snd (SubscriberService_GetSubscriber example_golib
      (NewSubscriberService example_golib) 0 0 2 (ClearSpans NewTestApp)))))
     = [''cache.get'', ''subscriber.repository.get_by_id'', ''subscriber.service.get'']"
    by (simp add: Let_def NewTestApp_def NewInMemorySubscriberRepository_def)
qed

end
